theory Spec2Isabelle
  imports Complex_Main
begin

section \<open>JavaScript strings\<close>

text \<open>
  A JavaScript string is a sequence of UTF-16 code units. The model covers the strings
  whose code units are below 256 (ASCII and Latin-1): a \<^typ>\<open>char\<close> is one code unit.
  On this range \<open>toLowerCase\<close> works unit by unit: it maps \<open>A\<close>..\<open>Z\<close> and the Latin-1
  capitals (U+00C0..U+00DE without the multiplication sign U+00D7) to the letter 32
  places up and leaves every other unit alone.
\<close>

definition toLowerChar :: "char \<Rightarrow> char" where
  "toLowerChar c =
     (let n = (of_char c :: nat)
      in if (65 \<le> n \<and> n \<le> 90) \<or> (192 \<le> n \<and> n \<le> 222 \<and> n \<noteq> 215)
         then char_of (n + 32) else c)"

definition toLowerCase :: "string \<Rightarrow> string" where
  "toLowerCase s = map toLowerChar s"

text \<open>\<open>hay.includes(needle)\<close>: the needle occurs in the hay as a contiguous run.\<close>

fun startsWith :: "string \<Rightarrow> string \<Rightarrow> bool" where
  "startsWith s [] = True"
| "startsWith [] (p # ps) = False"
| "startsWith (c # cs) (p # ps) = (c = p \<and> startsWith cs ps)"

fun includesStr :: "string \<Rightarrow> string \<Rightarrow> bool" where
  "includesStr [] needle = (needle = [])"
| "includesStr (c # cs) needle = (startsWith (c # cs) needle \<or> includesStr cs needle)"

text \<open>
  \<open>s.substring(a, b)\<close> and \<open>s.slice(a, b)\<close> on indices that are natural numbers: both
  clamp the indices to the length; \<open>substring\<close> swaps them when they are out of order,
  \<open>slice\<close> returns the empty string then.
\<close>

definition substring :: "string \<Rightarrow> nat \<Rightarrow> nat \<Rightarrow> string" where
  "substring s a b =
     (let len = length s; a' = min a len; b' = min b len;
          from = min a' b'; to = max a' b'
      in take (to - from) (drop from s))"

definition slice :: "string \<Rightarrow> nat \<Rightarrow> nat \<Rightarrow> string" where
  "slice s a b =
     (let len = length s; from = min a len; to = min b len
      in take (to - from) (drop from s))"

text \<open>
  \<open>trim\<close> removes white space and line terminators at both ends; below 256 these are
  tab, line feed, vertical tab, form feed, carriage return, space and the no-break space.
\<close>

definition isWhiteSpace :: "char \<Rightarrow> bool" where
  "isWhiteSpace c = ((of_char c :: nat) \<in> {9, 10, 11, 12, 13, 32, 160})"

definition trim :: "string \<Rightarrow> string" where
  "trim s = rev (dropWhile isWhiteSpace (rev (dropWhile isWhiteSpace s)))"

text \<open>\<open>s.replace(/[^a-zA-Z0-9]/g, '')\<close> keeps the ASCII letters and digits.\<close>

definition isAlnum :: "char \<Rightarrow> bool" where
  "isAlnum c =
     (let n = (of_char c :: nat)
      in (48 \<le> n \<and> n \<le> 57) \<or> (65 \<le> n \<and> n \<le> 90) \<or> (97 \<le> n \<and> n \<le> 122))"

definition stripNonAlnum :: "string \<Rightarrow> string" where
  "stripNonAlnum s = filter isAlnum s"

text \<open>\<open>s.split('.').pop()\<close>: what follows the last dot, the whole string without one.\<close>

definition lastDotSegment :: "string \<Rightarrow> string" where
  "lastDotSegment s = rev (takeWhile (\<lambda>c. c \<noteq> CHR ''.'') (rev s))"

text \<open>The decimal text of a natural number, as a template literal prints it.\<close>

definition digitChar :: "nat \<Rightarrow> char" where
  "digitChar d = char_of (48 + d)"

fun showNat :: "nat \<Rightarrow> string" where
  "showNat n = (if n < 10 then [digitChar n] else showNat (n div 10) @ [digitChar (n mod 10)])"

declare showNat.simps [simp del]

section \<open>JSON values\<close>

text \<open>
  The values \<open>JSON.parse\<close> returns and \<open>JSON.stringify\<close> prints. An object keeps its
  members in insertion order. A number is carried by the text \<open>JSON.stringify\<close> prints
  for it (the text of zero is \<open>0\<close>).
\<close>

datatype json =
    JNull
  | JBool bool
  | JNum string
  | JStr string
  | JArr "json list"
  | JObj "(string \<times> json) list"

text \<open>What \<open>if (v)\<close>, \<open>!v\<close> and \<open>v || w\<close> look at.\<close>

fun truthy :: "json \<Rightarrow> bool" where
  "truthy JNull = False"
| "truthy (JBool b) = b"
| "truthy (JNum t) = (t \<noteq> ''0'')"
| "truthy (JStr s) = (s \<noteq> [])"
| "truthy (JArr xs) = True"
| "truthy (JObj ms) = True"

text \<open>
  Reading a property \<open>v.k\<close> of a parsed value: \<open>None\<close> is \<open>undefined\<close>. The caller
  decides what reading from \<open>null\<close> does (a TypeError).
\<close>

fun getProp :: "json \<Rightarrow> string \<Rightarrow> json option" where
  "getProp (JObj ms) k = map_of ms k"
| "getProp v k = None"

text \<open>\<open>obj[k] = v\<close>: an existing member keeps its place, a new one goes last.\<close>

fun setProp :: "string \<Rightarrow> json \<Rightarrow> (string \<times> json) list \<Rightarrow> (string \<times> json) list" where
  "setProp k v [] = [(k, v)]"
| "setProp k v ((k', x) # rest) =
     (if k' = k then (k, v) # rest else (k', x) # setProp k v rest)"

text \<open>\<open>JSON.stringify\<close>: string escapes, then values without any white space.\<close>

definition hexDigit :: "nat \<Rightarrow> char" where
  "hexDigit d = (if d < 10 then char_of (48 + d) else char_of (87 + d))"

definition escapeChar :: "char \<Rightarrow> string" where
  "escapeChar c =
     (let n = (of_char c :: nat)
      in if c = CHR 0x22 then [CHR 0x5C, CHR 0x22]
         else if c = CHR 0x5C then [CHR 0x5C, CHR 0x5C]
         else if n = 8 then [CHR 0x5C, CHR ''b'']
         else if n = 12 then [CHR 0x5C, CHR ''f'']
         else if n = 10 then [CHR 0x5C, CHR ''n'']
         else if n = 13 then [CHR 0x5C, CHR ''r'']
         else if n = 9 then [CHR 0x5C, CHR ''t'']
         else if n < 32 then [CHR 0x5C, CHR ''u'', CHR ''0'', CHR ''0'',
                              hexDigit (n div 16), hexDigit (n mod 16)]
         else [c])"

definition quoteStr :: "string \<Rightarrow> string" where
  "quoteStr s = [CHR 0x22] @ concat (map escapeChar s) @ [CHR 0x22]"

fun joinComma :: "string list \<Rightarrow> string" where
  "joinComma [] = []"
| "joinComma [x] = x"
| "joinComma (x # y # ys) = x @ '','' @ joinComma (y # ys)"

fun stringify :: "json \<Rightarrow> string"
  and stringifyElems :: "json list \<Rightarrow> string list"
  and stringifyMembers :: "(string \<times> json) list \<Rightarrow> string list" where
  "stringify JNull = ''null''"
| "stringify (JBool b) = (if b then ''true'' else ''false'')"
| "stringify (JNum t) = t"
| "stringify (JStr s) = quoteStr s"
| "stringify (JArr xs) = ''['' @ joinComma (stringifyElems xs) @ '']''"
| "stringify (JObj ms) = ''{'' @ joinComma (stringifyMembers ms) @ ''}''"
| "stringifyElems [] = []"
| "stringifyElems (x # xs) = stringify x # stringifyElems xs"
| "stringifyMembers [] = []"
| "stringifyMembers ((k, v) # ms) = (quoteStr k @ '':'' @ stringify v) # stringifyMembers ms"

section \<open>Exceptions\<close>

text \<open>
  \<open>Error msg\<close> is \<open>new Error(msg)\<close> thrown by the program; \<open>TypeError\<close> and
  \<open>SyntaxError\<close> are thrown by the language (a property read from \<open>undefined\<close> or
  \<open>null\<close>, an enqueue on a stream that is no longer readable, \<open>JSON.parse\<close>);
  \<open>Thrown detail\<close> is whatever an external collaborator throws (file system, network,
  the document-AI client), with its internal detail.
\<close>

datatype exn = Error string | TypeError | SyntaxError | Thrown string

section \<open>The document-AI service\<close>

subsection \<open>The provider's document\<close>

text \<open>
  The parts of the provider's result the service reads. \<open>None\<close> is a property that is
  absent (\<open>undefined\<close>). A form field's name carries a text anchor; its value and an
  entity carry a text anchor and a confidence; an entity also has a type code. The text
  of the document is a string (the provider's default is the empty string). Confidence
  scores are exact rationals: the rounding of the floating-point sum is not modelled.
\<close>

record textSegment =
  startIndex :: "nat option"
  endIndex :: "nat option"

record anchor =
  textSegments :: "textSegment list option"

record anchored =
  textAnchor :: "anchor option"

record layout = anchored +
  confidence :: "rat option"

record entity = layout +
  type :: string

record formField =
  fieldName :: "anchored option"
  fieldValue :: "layout option"

record page =
  formFields :: "formField list option"

record aiDocument =
  docText :: string
  entities :: "entity list option"
  pages :: "page list option"

record DocumentAIConfig =
  projectId :: string
  location :: string
  w2ProcessorId :: string
  form1099ProcessorId :: "string option"

record ExtractedTaxData =
  documentType :: json
  ocrText :: json
  extractedData :: json
  confidence :: rat

record processRequest =
  name :: string
  content :: string
  mimeType :: string

subsection \<open>Choosing the processor pipeline\<close>

definition processorPath :: "string \<Rightarrow> string \<Rightarrow> string \<Rightarrow> string" where
  "processorPath project loc processor =
     ''projects/'' @ project @ ''/locations/'' @ loc @ ''/processors/'' @ processor"

definition is1099Type :: "string \<Rightarrow> bool" where
  "is1099Type docType =
     (docType = ''FORM_1099_INT'' \<or> docType = ''FORM_1099_DIV''
      \<or> docType = ''FORM_1099_MISC'' \<or> docType = ''FORM_1099_NEC''
      \<or> docType = ''FORM_1099_R'' \<or> docType = ''FORM_1099_G'')"

definition getProcessorName :: "DocumentAIConfig \<Rightarrow> string \<Rightarrow> exn + string" where
  "getProcessorName config docType =
     (if docType = ''W2''
      then Inr (processorPath (projectId config) (location config) (w2ProcessorId config))
      else if is1099Type docType
      then (case form1099ProcessorId config of
              None \<Rightarrow> Inl (Error (''No 1099 processor configured for '' @ docType))
            | Some p \<Rightarrow>
                if p = [] then Inl (Error (''No 1099 processor configured for '' @ docType))
                else Inr (processorPath (projectId config) (location config) p))
      else Inr (processorPath (projectId config) (location config) (w2ProcessorId config)))"

definition getMimeType :: "string \<Rightarrow> string" where
  "getMimeType filePath =
     (let extension = lastDotSegment (toLowerCase filePath)
      in if extension = ''pdf'' then ''application/pdf''
         else if extension = ''png'' then ''image/png''
         else if extension = ''jpg'' \<or> extension = ''jpeg'' then ''image/jpeg''
         else if extension = ''tiff'' \<or> extension = ''tif'' then ''image/tiff''
         else ''application/pdf'')"

subsection \<open>Reading text and mapping fields\<close>

definition getText :: "anchor option \<Rightarrow> string \<Rightarrow> string" where
  "getText anchor fullText =
     (case anchor of
        None \<Rightarrow> []
      | Some a \<Rightarrow>
          (case textSegments a of
             None \<Rightarrow> []
           | Some [] \<Rightarrow> []
           | Some (segment # others) \<Rightarrow>
               (let startIdx = (case startIndex segment of None \<Rightarrow> 0 | Some i \<Rightarrow> i);
                    endIdx = (case endIndex segment of
                                None \<Rightarrow> length fullText
                              | Some j \<Rightarrow> if j = 0 then length fullText else j)
                in trim (substring fullText startIdx endIdx))))"

text \<open>
  The result objects are association lists in the order of their declaration, which is
  the order \<open>Object.entries\<close> walks them.
\<close>

definition emptyFields :: "string list \<Rightarrow> (string \<times> json) list" where
  "emptyFields keys = map (\<lambda>k. (k, JStr [])) keys"

definition w2Fields :: "string list" where
  "w2Fields =
     [''employerName'', ''employerEIN'', ''employerAddress'', ''employeeName'',
      ''employeeSSN'', ''employeeAddress'', ''wages'', ''federalTaxWithheld'',
      ''socialSecurityWages'', ''socialSecurityTaxWithheld'', ''medicareWages'',
      ''medicareTaxWithheld'', ''socialSecurityTips'', ''allocatedTips'', ''stateWages'',
      ''stateTaxWithheld'', ''localWages'', ''localTaxWithheld'']"

definition w2EntityField :: "string \<Rightarrow> string option" where
  "w2EntityField t =
     (if t = ''employee_name'' then Some ''employeeName''
      else if t = ''employee_ssn'' then Some ''employeeSSN''
      else if t = ''employer_name'' then Some ''employerName''
      else if t = ''employer_ein'' then Some ''employerEIN''
      else if t = ''wages_tips_other_compensation'' then Some ''wages''
      else if t = ''federal_income_tax_withheld'' then Some ''federalTaxWithheld''
      else if t = ''social_security_wages'' then Some ''socialSecurityWages''
      else if t = ''social_security_tax_withheld'' then Some ''socialSecurityTaxWithheld''
      else if t = ''medicare_wages_and_tips'' then Some ''medicareWages''
      else if t = ''medicare_tax_withheld'' then Some ''medicareTaxWithheld''
      else None)"

definition w2EntityStep :: "string \<Rightarrow> entity \<Rightarrow> (string \<times> json) list \<Rightarrow> (string \<times> json) list" where
  "w2EntityStep fullText e w2Data =
     (let v = getText (textAnchor e) fullText
      in case w2EntityField (type e) of
           None \<Rightarrow> w2Data
         | Some k \<Rightarrow> setProp k (JStr v) w2Data)"

text \<open>
  Both form-field loops skip a field that lacks the text anchor of its name or of its
  value; \<open>fieldAnchors\<close> is that guard, returning the two anchors of a field that passes.
\<close>

definition fieldAnchors :: "formField \<Rightarrow> (anchor \<times> anchor) option" where
  "fieldAnchors field =
     (case fieldName field of
        None \<Rightarrow> None
      | Some n \<Rightarrow>
          (case textAnchor n of
             None \<Rightarrow> None
           | Some na \<Rightarrow>
               (case fieldValue field of
                  None \<Rightarrow> None
                | Some v \<Rightarrow>
                    (case textAnchor v of
                       None \<Rightarrow> None
                     | Some va \<Rightarrow> Some (na, va)))))"

text \<open>\<open>document.pages && document.pages[0]?.formFields\<close>, when it is truthy.\<close>

definition firstPageFields :: "aiDocument \<Rightarrow> formField list option" where
  "firstPageFields document =
     (case pages document of
        None \<Rightarrow> None
      | Some [] \<Rightarrow> None
      | Some (p # ps) \<Rightarrow> formFields p)"

definition w2FieldStep :: "string \<Rightarrow> formField \<Rightarrow> (string \<times> json) list \<Rightarrow> (string \<times> json) list" where
  "w2FieldStep fullText field w2Data =
     (case fieldAnchors field of
        None \<Rightarrow> w2Data
      | Some (na, va) \<Rightarrow>
          (let fieldNameText = toLowerCase (getText (Some na) fullText);
               fieldValueText = getText (Some va) fullText
           in if includesStr fieldNameText ''wages'' \<and> includesStr fieldNameText ''tips''
              then setProp ''wages'' (JStr fieldValueText) w2Data
              else if includesStr fieldNameText ''federal'' \<and> includesStr fieldNameText ''tax''
              then setProp ''federalTaxWithheld'' (JStr fieldValueText) w2Data
              else if includesStr fieldNameText ''social security'' \<and> includesStr fieldNameText ''wages''
              then setProp ''socialSecurityWages'' (JStr fieldValueText) w2Data
              else if includesStr fieldNameText ''medicare'' \<and> includesStr fieldNameText ''wages''
              then setProp ''medicareWages'' (JStr fieldValueText) w2Data
              else w2Data))"

definition extractW2Data :: "aiDocument \<Rightarrow> (string \<times> json) list" where
  "extractW2Data document =
     (let w2Data = emptyFields w2Fields;
          w2Data = (case entities document of
                      None \<Rightarrow> w2Data
                    | Some es \<Rightarrow> fold (w2EntityStep (docText document)) es w2Data)
      in case firstPageFields document of
           None \<Rightarrow> w2Data
         | Some fs \<Rightarrow> fold (w2FieldStep (docText document)) fs w2Data)"

subsection \<open>The generic form-field path\<close>

definition normalizeName :: "string \<Rightarrow> string" where
  "normalizeName s = stripNonAlnum (toLowerCase s)"

text \<open>
  The inner loop over \<open>Object.entries(dataObject)\<close>: the first key, in the order of the
  object, whose normalized name is contained in the normalized label or contains it.
\<close>

fun firstMatchingKey :: "string \<Rightarrow> (string \<times> json) list \<Rightarrow> string option" where
  "firstMatchingKey normalizedFieldName [] = None"
| "firstMatchingKey normalizedFieldName ((key, v) # rest) =
     (let normalizedKey = normalizeName key
      in if includesStr normalizedFieldName normalizedKey
            \<or> includesStr normalizedKey normalizedFieldName
         then Some key
         else firstMatchingKey normalizedFieldName rest)"

definition genericFieldStep :: "string \<Rightarrow> formField \<Rightarrow> (string \<times> json) list \<Rightarrow> (string \<times> json) list" where
  "genericFieldStep fullText field dataObject =
     (case fieldAnchors field of
        None \<Rightarrow> dataObject
      | Some (na, va) \<Rightarrow>
          (let fieldNameText = getText (Some na) fullText;
               fieldValueText = getText (Some va) fullText;
               normalizedFieldName = normalizeName fieldNameText
           in case firstMatchingKey normalizedFieldName dataObject of
                None \<Rightarrow> dataObject
              | Some key \<Rightarrow> setProp key (JStr fieldValueText) dataObject))"

definition extractGenericFormFields :: "aiDocument \<Rightarrow> (string \<times> json) list \<Rightarrow> (string \<times> json) list" where
  "extractGenericFormFields document dataObject =
     (case firstPageFields document of
        None \<Rightarrow> dataObject
      | Some fs \<Rightarrow> fold (genericFieldStep (docText document)) fs dataObject)"

definition payerFields :: "string list" where
  "payerFields =
     [''payerName'', ''payerTIN'', ''payerAddress'', ''recipientName'', ''recipientTIN'',
      ''recipientAddress'']"

definition int1099Fields :: "string list" where
  "int1099Fields = payerFields @
     [''interestIncome'', ''earlyWithdrawalPenalty'', ''interestOnUSavingsBonds'',
      ''federalTaxWithheld'', ''investmentExpenses'', ''foreignTaxPaid'', ''foreignCountry'',
      ''taxExemptInterest'', ''privateActivityBondInterest'', ''marketDiscount'',
      ''bondPremium'', ''bondPremiumOnTaxExemptBond'', ''stateCode'', ''stateTaxWithheld'',
      ''stateIdNumber'']"

definition div1099Fields :: "string list" where
  "div1099Fields = payerFields @
     [''ordinaryDividends'', ''qualifiedDividends'', ''totalCapitalGain'',
      ''unrecaptured1250Gain'', ''section1202Gain'', ''collectiblesGain'',
      ''nondividendDistributions'', ''federalTaxWithheld'', ''section199ADividends'',
      ''investmentExpenses'', ''foreignTaxPaid'', ''foreignCountry'', ''cashLiquidation'',
      ''noncashLiquidation'', ''stateCode'', ''stateTaxWithheld'', ''stateIdNumber'']"

definition misc1099Fields :: "string list" where
  "misc1099Fields = payerFields @
     [''rents'', ''royalties'', ''otherIncome'', ''federalTaxWithheld'',
      ''fishingBoatProceeds'', ''medicalHealthPayments'', ''nonemployeeCompensation'',
      ''substitutePayments'', ''cropInsuranceProceeds'', ''grossProceeds'',
      ''section409ADeferrals'', ''section409AIncome'', ''excessGoldenParachute'',
      ''nonqualifiedDeferredCompensation'', ''stateCode'', ''stateTaxWithheld'',
      ''stateIdNumber'']"

definition nec1099Fields :: "string list" where
  "nec1099Fields = payerFields @
     [''nonemployeeCompensation'', ''federalTaxWithheld'', ''stateCode'',
      ''stateTaxWithheld'', ''stateIdNumber'']"

definition extract1099IntData :: "aiDocument \<Rightarrow> (string \<times> json) list" where
  "extract1099IntData document = extractGenericFormFields document (emptyFields int1099Fields)"

definition extract1099DivData :: "aiDocument \<Rightarrow> (string \<times> json) list" where
  "extract1099DivData document = extractGenericFormFields document (emptyFields div1099Fields)"

definition extract1099MiscData :: "aiDocument \<Rightarrow> (string \<times> json) list" where
  "extract1099MiscData document = extractGenericFormFields document (emptyFields misc1099Fields)"

definition extract1099NecData :: "aiDocument \<Rightarrow> (string \<times> json) list" where
  "extract1099NecData document = extractGenericFormFields document (emptyFields nec1099Fields)"

definition genericData :: "(string \<times> json) list" where
  "genericData =
     emptyFields [''payerName'', ''payerTIN'', ''recipientName'', ''recipientTIN'',
                  ''incomeAmount'', ''taxWithheld'']
     @ [(''relevantBoxes'', JObj [])]"

definition extractGenericTaxData :: "aiDocument \<Rightarrow> (string \<times> json) list" where
  "extractGenericTaxData document = extractGenericFormFields document genericData"

subsection \<open>Confidence\<close>

text \<open>The two counters of the loop, \<open>totalConfidence\<close> and \<open>count\<close>, are a pair.\<close>

definition addConfidence :: "rat option \<Rightarrow> rat \<times> nat \<Rightarrow> rat \<times> nat" where
  "addConfidence c acc =
     (case c of None \<Rightarrow> acc | Some x \<Rightarrow> (fst acc + x, snd acc + 1))"

definition fieldConfidence :: "formField \<Rightarrow> rat option" where
  "fieldConfidence field =
     (case fieldValue field of None \<Rightarrow> None | Some v \<Rightarrow> layout.confidence v)"

definition pageConfidence :: "page \<Rightarrow> rat \<times> nat \<Rightarrow> rat \<times> nat" where
  "pageConfidence p acc =
     (case formFields p of
        None \<Rightarrow> acc
      | Some fs \<Rightarrow> fold (\<lambda>field. addConfidence (fieldConfidence field)) fs acc)"

definition calculateAverageConfidence :: "aiDocument \<Rightarrow> rat" where
  "calculateAverageConfidence document =
     (let acc = (0, 0);
          acc = (case entities document of
                   None \<Rightarrow> acc
                 | Some es \<Rightarrow> fold (\<lambda>e. addConfidence (layout.confidence e)) es acc);
          acc = (case pages document of
                   None \<Rightarrow> acc
                 | Some ps \<Rightarrow> fold pageConfidence ps acc)
      in if snd acc > 0 then fst acc / of_nat (snd acc) else 0)"

subsection \<open>From the provider's document to the extraction result\<close>

definition transformToTaxData :: "aiDocument \<Rightarrow> string \<Rightarrow> ExtractedTaxData" where
  "transformToTaxData document docType =
     (let fullText = docText document;
          extracted =
            (if docType = ''W2'' then extractW2Data document
             else if docType = ''FORM_1099_INT'' then extract1099IntData document
             else if docType = ''FORM_1099_DIV'' then extract1099DivData document
             else if docType = ''FORM_1099_MISC'' then extract1099MiscData document
             else if docType = ''FORM_1099_NEC'' then extract1099NecData document
             else extractGenericTaxData document);
          averageConfidence = calculateAverageConfidence document
      in \<lparr> documentType = JStr docType, ocrText = JStr fullText,
           extractedData = JObj extracted, confidence = averageConfidence \<rparr>)"

section \<open>The persistent store and the effects of a request\<close>

text \<open>
  The store holds users, tax returns and documents. A route handler is a function from
  what it reads (the request, the store, the answers of its external collaborators) to
  its response and the ordered list of the effects it performs. The store, the session
  lookup and the file system's writes are taken to succeed; the providers, the file
  read and the consumer of the event stream may fail.
\<close>

datatype processingStatus = PENDING | PROCESSING | COMPLETED | FAILED

record User =
  id :: string
  email :: string

record TaxReturn =
  id :: string
  userId :: string

record Document =
  id :: string
  taxReturnId :: string
  fileName :: string
  fileType :: string
  fileSize :: nat
  filePath :: string
  documentType :: string
  processingStatus :: processingStatus
  ocrText :: "json option"
  extractedData :: "ExtractedTaxData option"

record database =
  users :: "User list"
  taxReturns :: "TaxReturn list"
  documents :: "Document list"

datatype provider = Primary | Secondary

datatype effect =
    Mkdir string
  | WriteFile string string
  | CreateDocument Document
  | UpdateStatus string processingStatus
  | UpdateCompleted string ExtractedTaxData
  | Invoke provider
  | Enqueue string
  | Close
  | ControllerError exn

datatype response =
    Json nat json
  | JsonDocument Document
  | EventStream

definition errorBody :: "string \<Rightarrow> json" where
  "errorBody msg = JObj [(''error'', JStr msg)]"

text \<open>What the two updates of the process route do to a row of the store.\<close>

definition applyToDocument :: "effect \<Rightarrow> Document \<Rightarrow> Document" where
  "applyToDocument e d =
     (case e of
        UpdateStatus i st \<Rightarrow>
          if Document.id d = i then d\<lparr> processingStatus := st \<rparr> else d
      | UpdateCompleted i r \<Rightarrow>
          if Document.id d = i
          then d\<lparr> Document.ocrText := Some (ExtractedTaxData.ocrText r),
                 Document.extractedData := Some r,
                 processingStatus := COMPLETED \<rparr>
          else d
      | _ \<Rightarrow> d)"




fun createdDocuments :: "effect list \<Rightarrow> Document list" where
  "createdDocuments [] = []"
| "createdDocuments (CreateDocument d # es) = d # createdDocuments es"
| "createdDocuments (e # es) = createdDocuments es"

fun statusWrites :: "string \<Rightarrow> effect list \<Rightarrow> processingStatus list" where
  "statusWrites i [] = []"
| "statusWrites i (UpdateStatus j st # es) =
     (if i = j then st # statusWrites i es else statusWrites i es)"
| "statusWrites i (UpdateCompleted j r # es) =
     (if i = j then COMPLETED # statusWrites i es else statusWrites i es)"
| "statusWrites i (e # es) = statusWrites i es"

fun invoked :: "effect list \<Rightarrow> provider list" where
  "invoked [] = []"
| "invoked (Invoke p # es) = p # invoked es"
| "invoked (e # es) = invoked es"

fun enqueued :: "effect list \<Rightarrow> string list" where
  "enqueued [] = []"
| "enqueued (Enqueue x # es) = x # enqueued es"
| "enqueued (e # es) = enqueued es"

section \<open>Document intake: the upload route\<close>

record File =
  name :: string
  type :: string
  bytes :: string



definition determineDocumentType :: "string \<Rightarrow> string" where
  "determineDocumentType fname =
     (let lowerName = toLowerCase fname
      in if includesStr lowerName ''w-2'' \<or> includesStr lowerName ''w2'' then ''W2''
         else if includesStr lowerName ''1099-int'' then ''FORM_1099_INT''
         else if includesStr lowerName ''1099-div'' then ''FORM_1099_DIV''
         else if includesStr lowerName ''1099-misc'' then ''FORM_1099_MISC''
         else if includesStr lowerName ''1099-nec'' then ''FORM_1099_NEC''
         else if includesStr lowerName ''1099-r'' then ''FORM_1099_R''
         else if includesStr lowerName ''1099-g'' then ''FORM_1099_G''
         else if includesStr lowerName ''1099'' then ''OTHER_TAX_DOCUMENT''
         else ''UNKNOWN'')"



text \<open>A session gives the caller's e-mail address; an empty one counts as none.\<close>

definition sessionUser :: "string option \<Rightarrow> string option" where
  "sessionUser s = (case s of None \<Rightarrow> None | Some e \<Rightarrow> if e = [] then None else Some e)"


section \<open>The extraction orchestrator: the process route\<close>

subsection \<open>What the handler reads from outside\<close>

record message =
  content :: "string option"

record choice =
  message :: "message option"

record completion =
  choices :: "choice list option"

record httpResponse =
  status :: nat
  jsonBody :: "exn + completion"

text \<open>\<open>response.ok\<close>: the status is in the range 200 to 299.\<close>

definition ok :: "httpResponse \<Rightarrow> bool" where
  "ok r = (200 \<le> status r \<and> status r \<le> 299)"

text \<open>
  The environment variables, and the answers of the collaborators: the file system's
  \<open>readFile\<close>, the base64 text of a buffer, the document-AI client's \<open>processDocument\<close>
  (its result's \<open>document\<close>, which may be absent), the chat-completion endpoint (the
  request is built from the document and the base64 text of its file), \<open>JSON.parse\<close>
  (\<open>None\<close> is a SyntaxError), and the consumer of the event stream: \<open>Some n\<close> when it
  cancels the stream after \<open>n\<close> events, \<open>None\<close> when it reads to the end. The first
  event is enqueued before the handler first yields, so a consumer takes one at least.
\<close>

record world =
  GOOGLE_CLOUD_PROJECT_ID :: "string option"
  GOOGLE_CLOUD_LOCATION :: "string option"
  GOOGLE_CLOUD_W2_PROCESSOR_ID :: "string option"
  GOOGLE_CLOUD_1099_PROCESSOR_ID :: "string option"
  GOOGLE_APPLICATION_CREDENTIALS :: "string option"
  readFile :: "string \<Rightarrow> exn + string"
  toBase64 :: "string \<Rightarrow> string"
  clientProcessDocument :: "processRequest \<Rightarrow> exn + aiDocument option"
  fetchCompletion :: "Document \<Rightarrow> string \<Rightarrow> exn + httpResponse"
  JSON_parse :: "string \<Rightarrow> json option"
  consumer :: "nat option"

text \<open>An environment variable is truthy when it is set and not empty.\<close>

definition isSet :: "string option \<Rightarrow> bool" where
  "isSet v = (case v of None \<Rightarrow> False | Some s \<Rightarrow> s \<noteq> [])"

definition orDefault :: "string option \<Rightarrow> string \<Rightarrow> string" where
  "orDefault v d = (case v of None \<Rightarrow> d | Some s \<Rightarrow> if s = [] then d else s)"

definition createDocumentAIConfig :: "world \<Rightarrow> exn + DocumentAIConfig" where
  "createDocumentAIConfig w =
     (let config = \<lparr> projectId = orDefault (GOOGLE_CLOUD_PROJECT_ID w) [],
                      location = orDefault (GOOGLE_CLOUD_LOCATION w) ''us'',
                      w2ProcessorId = orDefault (GOOGLE_CLOUD_W2_PROCESSOR_ID w) [],
                      form1099ProcessorId = Some (orDefault (GOOGLE_CLOUD_1099_PROCESSOR_ID w) []) \<rparr>
      in if projectId config = [] \<or> w2ProcessorId config = []
         then Inl (Error ''Missing required Google Cloud configuration. Please set GOOGLE_CLOUD_PROJECT_ID, GOOGLE_CLOUD_W2_PROCESSOR_ID environment variables.'')
         else Inr config)"

subsection \<open>The primary provider\<close>

definition processDocument :: "world \<Rightarrow> DocumentAIConfig \<Rightarrow> string \<Rightarrow> string \<Rightarrow> exn + ExtractedTaxData" where
  "processDocument w config path docType =
     (case getProcessorName config docType of
        Inl e \<Rightarrow> Inl e
      | Inr processorName \<Rightarrow>
     (case readFile w path of
        Inl e \<Rightarrow> Inl e
      | Inr imageFile \<Rightarrow>
          (let request = \<lparr> processRequest.name = processorName,
                            processRequest.content = toBase64 w imageFile,
                            mimeType = getMimeType path \<rparr>
           in case clientProcessDocument w request of
                Inl e \<Rightarrow> Inl e
              | Inr None \<Rightarrow> Inl (Error ''No document returned from processing'')
              | Inr (Some document) \<Rightarrow> Inr (transformToTaxData document docType))))"

subsection \<open>The secondary provider\<close>

text \<open>\<open>a || b\<close> on a property that may be absent.\<close>

definition orElse :: "json option \<Rightarrow> json \<Rightarrow> json" where
  "orElse v d = (case v of None \<Rightarrow> d | Some x \<Rightarrow> if truthy x then x else d)"

definition firstContent :: "choice list \<Rightarrow> string option" where
  "firstContent cs =
     (case cs of
        [] \<Rightarrow> None
      | c # rest \<Rightarrow> (case message c of None \<Rightarrow> None | Some m \<Rightarrow> message.content m))"

definition processWithLLM :: "world \<Rightarrow> Document \<Rightarrow> exn + ExtractedTaxData" where
  "processWithLLM w document =
     (case readFile w (filePath document) of
        Inl e \<Rightarrow> Inl e
      | Inr fileBuffer \<Rightarrow>
     (case fetchCompletion w document (toBase64 w fileBuffer) of
        Inl e \<Rightarrow> Inl e
      | Inr response \<Rightarrow>
          if \<not> ok response
          then Inl (Error (''LLM API error: '' @ showNat (status response)))
          else
     (case jsonBody response of
        Inl e \<Rightarrow> Inl e
      | Inr result \<Rightarrow>
     (case choices result of
        None \<Rightarrow> Inl TypeError
      | Some cs \<Rightarrow>
     (case firstContent cs of
        None \<Rightarrow> Inl (Error ''No content returned from LLM API'')
      | Some c \<Rightarrow>
          if c = [] then Inl (Error ''No content returned from LLM API'')
          else
     (case JSON_parse w c of
        None \<Rightarrow> Inl SyntaxError
      | Some parsedContent \<Rightarrow>
          if parsedContent = JNull then Inl TypeError
          else Inr \<lparr> ExtractedTaxData.documentType =
                       orElse (getProp parsedContent ''documentType'')
                              (JStr (Document.documentType document)),
                     ExtractedTaxData.ocrText =
                       orElse (getProp parsedContent ''ocrText'') (JStr []),
                     ExtractedTaxData.extractedData =
                       orElse (getProp parsedContent ''extractedData'') parsedContent,
                     ExtractedTaxData.confidence = 85 / 100 \<rparr>))))))"

subsection \<open>Choosing the provider\<close>

definition useDocumentAI :: "world \<Rightarrow> bool" where
  "useDocumentAI w =
     (isSet (GOOGLE_CLOUD_PROJECT_ID w) \<and> isSet (GOOGLE_CLOUD_W2_PROCESSOR_ID w)
      \<and> isSet (GOOGLE_APPLICATION_CREDENTIALS w))"

text \<open>
  The \<open>if (useDocumentAI)\<close> block with its \<open>try\<close>/\<open>catch\<close>: which providers are invoked,
  in order, and the result or the exception that leaves the block. \<open>Invoke Primary\<close> is
  the call of the service's \<open>processDocument\<close>, \<open>Invoke Secondary\<close> that of
  \<open>processWithLLM\<close>.
\<close>

definition chooseProvider :: "world \<Rightarrow> Document \<Rightarrow> effect list \<times> (exn + ExtractedTaxData)" where
  "chooseProvider w document =
     (if useDocumentAI w
      then (case createDocumentAIConfig w of
              Inl docAIError \<Rightarrow> ([Invoke Secondary], processWithLLM w document)
            | Inr config \<Rightarrow>
                (case processDocument w config (filePath document) (Document.documentType document) of
                   Inr r \<Rightarrow> ([Invoke Primary], Inr r)
                 | Inl docAIError \<Rightarrow>
                     ([Invoke Primary, Invoke Secondary], processWithLLM w document)))
      else ([Invoke Secondary], processWithLLM w document))"

subsection \<open>The event stream\<close>

text \<open>\<open>encoder.encode\<close>: the UTF-8 bytes of a string of code units below 256.\<close>

definition utf8Unit :: "char \<Rightarrow> string" where
  "utf8Unit c =
     (let n = (of_char c :: nat)
      in if n < 128 then [c] else [char_of (192 + n div 64), char_of (128 + n mod 64)])"

definition encode :: "string \<Rightarrow> string" where
  "encode s = concat (map utf8Unit s)"

definition chunkSize :: nat where
  "chunkSize = 100"

definition contentEvent :: "string \<Rightarrow> string" where
  "contentEvent chunk =
     encode (''data: '' @ stringify (JObj [(''content'', JStr chunk)]) @ [CHR 0x0A, CHR 0x0A])"

definition doneEvent :: string where
  "doneEvent = encode (''data: [DONE]'' @ [CHR 0x0A, CHR 0x0A])"

text \<open>\<open>controller.enqueue\<close> throws once the consumer has cancelled the stream.\<close>

definition canEnqueue :: "nat option \<Rightarrow> nat \<Rightarrow> bool" where
  "canEnqueue limit n = (case limit of None \<Rightarrow> True | Some l \<Rightarrow> n < l)"

text \<open>
  The loop \<open>for (let i = 0; i < jsonResponse.length; i += chunkSize)\<close>, from index \<open>i\<close>
  with \<open>n\<close> events enqueued so far: the events it enqueues, and the exception that stops
  it, if any.
\<close>

function sendChunks :: "nat option \<Rightarrow> string \<Rightarrow> nat \<Rightarrow> nat \<Rightarrow> effect list \<times> exn option" where
  "sendChunks limit jsonResponse i n =
     (if i < length jsonResponse
      then (let chunk = slice jsonResponse i (i + chunkSize)
            in if canEnqueue limit n
               then (let rest = sendChunks limit jsonResponse (i + chunkSize) (n + 1)
                     in (Enqueue (contentEvent chunk) # fst rest, snd rest))
               else ([], Some TypeError))
      else ([], None))"
  by pat_completeness auto
termination
  by (relation "measure (\<lambda>(limit, jsonResponse, i, n). length jsonResponse - i)")
     (auto simp: chunkSize_def)

declare sendChunks.simps [simp del]

definition streamStart :: "world \<Rightarrow> string \<Rightarrow> ExtractedTaxData \<Rightarrow> effect list" where
  "streamStart w docId extractedTaxData =
     (let jsonResponse =
            stringify (JObj [(''documentType'', ExtractedTaxData.documentType extractedTaxData),
                             (''ocrText'', ExtractedTaxData.ocrText extractedTaxData),
                             (''extractedData'', ExtractedTaxData.extractedData extractedTaxData)]);
          sent = sendChunks (consumer w) jsonResponse 0 0
      in case snd sent of
           Some e \<Rightarrow> fst sent @ [UpdateStatus docId FAILED, ControllerError e]
         | None \<Rightarrow>
             if canEnqueue (consumer w) (length (fst sent))
             then fst sent @ [UpdateCompleted docId extractedTaxData, Enqueue doneEvent, Close]
             else fst sent @ [UpdateCompleted docId extractedTaxData,
                              UpdateStatus docId FAILED, ControllerError TypeError])"

subsection \<open>The handler\<close>

definition findDocument :: "database \<Rightarrow> string \<Rightarrow> User \<Rightarrow> Document option" where
  "findDocument db docId user =
     find (\<lambda>d. Document.id d = docId
               \<and> (case find (\<lambda>t. TaxReturn.id t = taxReturnId d) (taxReturns db) of
                     None \<Rightarrow> False
                   | Some t \<Rightarrow> userId t = User.id user))
          (documents db)"

definition processPOST :: "world \<Rightarrow> database \<Rightarrow> string option \<Rightarrow> string \<Rightarrow> response \<times> effect list" where
  "processPOST w db session docId =
     (case sessionUser session of
        None \<Rightarrow> (Json 401 (errorBody ''Unauthorized''), [])
      | Some mail \<Rightarrow>
     (case find (\<lambda>u. email u = mail) (users db) of
        None \<Rightarrow> (Json 404 (errorBody ''User not found''), [])
      | Some user \<Rightarrow>
     (case findDocument db docId user of
        None \<Rightarrow> (Json 404 (errorBody ''Document not found''), [])
      | Some document \<Rightarrow>
          (let extraction = chooseProvider w document
           in case snd extraction of
                Inl error \<Rightarrow>
                  (Json 500 (errorBody ''Internal server error''),
                   [UpdateStatus docId PROCESSING] @ fst extraction
                   @ [UpdateStatus docId FAILED])
              | Inr extractedTaxData \<Rightarrow>
                  (EventStream,
                   [UpdateStatus docId PROCESSING] @ fst extraction
                   @ streamStart w docId extractedTaxData)))))"

section \<open>The scenario calculator\<close>

text \<open>
  The component computes its rows with two functions of the tax-calculation library,
  which are parameters here, as is the number formatting of the platform. Amounts are
  exact rationals; \<open>None\<close> is a property that is absent. A row of the library has a
  tax liability, which may be absent.
\<close>

record comparison =
  recommendedMethod :: string
  itemizedTaxLiability :: rat
  standardTaxLiability :: rat

record ('b, 'd) library =
  calculateTaxImpactScenarios :: "rat \<Rightarrow> string \<Rightarrow> rat \<Rightarrow> 'd list \<Rightarrow> 'b list"
  calculateDeductionComparison :: "rat \<Rightarrow> string \<Rightarrow> rat \<Rightarrow> 'd list \<Rightarrow> comparison"
  rowTaxLiability :: "'b \<Rightarrow> rat option"
  toLocaleString :: "rat \<Rightarrow> string"

record CustomScenario =
  id :: string
  name :: string
  additionalAmount :: rat
  deductionType :: string

record 'd props =
  adjustedGrossIncome :: "rat option"
  currentItemizedDeductions :: "rat option"
  filingStatus :: "string option"
  dependents :: "'d list option"

record customCalculation =
  scenario :: string
  description :: string
  itemizedDeductions :: rat
  taxLiability :: rat
  savings :: rat
  custom :: bool
  id :: string

datatype 'b calculation = Base 'b | Custom customCalculation

text \<open>\<open>Math.max(0, parseFloat(String(x || 0)))\<close> on a number that may be absent.\<close>

definition safeAmount :: "rat option \<Rightarrow> rat" where
  "safeAmount x = max 0 (case x of None \<Rightarrow> 0 | Some v \<Rightarrow> v)"

definition safeAdjustedGrossIncome :: "'d props \<Rightarrow> rat" where
  "safeAdjustedGrossIncome p = safeAmount (adjustedGrossIncome p)"

definition safeCurrentItemizedDeductions :: "'d props \<Rightarrow> rat" where
  "safeCurrentItemizedDeductions p = safeAmount (currentItemizedDeductions p)"

definition safeFilingStatus :: "'d props \<Rightarrow> string" where
  "safeFilingStatus p = orDefault (filingStatus p) ''SINGLE''"

definition safeDependents :: "'d props \<Rightarrow> 'd list" where
  "safeDependents p = (case dependents p of None \<Rightarrow> [] | Some ds \<Rightarrow> ds)"

definition minIncomeForCalculation :: "'d props \<Rightarrow> rat" where
  "minIncomeForCalculation p = max (safeAdjustedGrossIncome p) 50000"

definition deductionTypes :: "(string \<times> string) list" where
  "deductionTypes =
     [(''CHARITABLE_CONTRIBUTIONS'', ''Charitable Donations''),
      (''MORTGAGE_INTEREST'', ''Mortgage Interest''),
      (''STATE_LOCAL_TAXES'', ''State & Local Taxes''),
      (''MEDICAL_EXPENSES'', ''Medical Expenses''),
      (''BUSINESS_EXPENSES'', ''Business Expenses''),
      (''STUDENT_LOAN_INTEREST'', ''Student Loan Interest''),
      (''IRA_CONTRIBUTIONS'', ''Retirement Contributions''),
      (''OTHER_DEDUCTIONS'', ''Other Deductions'')]"

definition baseScenarios :: "('b, 'd) library \<Rightarrow> 'd props \<Rightarrow> 'b list" where
  "baseScenarios lib p =
     calculateTaxImpactScenarios lib (minIncomeForCalculation p) (safeFilingStatus p)
       (safeCurrentItemizedDeductions p) (safeDependents p)"

text \<open>\<open>baseScenarios[0]?.taxLiability || 0\<close>\<close>

definition baseTaxLiability :: "('b, 'd) library \<Rightarrow> 'd props \<Rightarrow> rat" where
  "baseTaxLiability lib p =
     (case baseScenarios lib p of
        [] \<Rightarrow> 0
      | b # rest \<Rightarrow> (case rowTaxLiability lib b of None \<Rightarrow> 0 | Some x \<Rightarrow> x))"

definition customCalculation :: "('b, 'd) library \<Rightarrow> 'd props \<Rightarrow> CustomScenario \<Rightarrow> customCalculation" where
  "customCalculation lib p s =
     (let newComparison =
            calculateDeductionComparison lib (minIncomeForCalculation p) (safeFilingStatus p)
              (safeCurrentItemizedDeductions p + additionalAmount s) (safeDependents p);
          newTaxLiability =
            (if recommendedMethod newComparison = ''itemized''
             then itemizedTaxLiability newComparison
             else standardTaxLiability newComparison);
          label = (case map_of deductionTypes (deductionType s) of
                     None \<Rightarrow> ''undefined''
                   | Some l \<Rightarrow> l)
      in \<lparr> scenario = CustomScenario.name s,
           description = label @ '': +$'' @ toLocaleString lib (additionalAmount s),
           itemizedDeductions = safeCurrentItemizedDeductions p + additionalAmount s,
           taxLiability = newTaxLiability,
           savings = baseTaxLiability lib p - newTaxLiability,
           custom = True,
           customCalculation.id = CustomScenario.id s \<rparr>)"

definition calculations :: "('b, 'd) library \<Rightarrow> 'd props \<Rightarrow> CustomScenario list \<Rightarrow> 'b calculation list" where
  "calculations lib p customScenarios =
     map Base (baseScenarios lib p) @ map (\<lambda>s. Custom (customCalculation lib p s)) customScenarios"

section \<open>Notions of the specification\<close>

text \<open>
  The definitions of this section follow the words of the specification, not the code;
  the theorems compare them with the code.
\<close>

subsection \<open>The priority order of the document types\<close>

text \<open>
  A name matches a pattern when some contiguous part of it equals the pattern up to the
  case of the letters. The inferred type is that of the first entry of the priority
  order with a pattern the name matches, and \<open>UNKNOWN\<close> when there is none.
\<close>

definition priorityOrder :: "(string list \<times> string) list" where
  "priorityOrder =
     [([''w-2'', ''w2''], ''W2''),
      ([''1099-int''], ''FORM_1099_INT''),
      ([''1099-div''], ''FORM_1099_DIV''),
      ([''1099-misc''], ''FORM_1099_MISC''),
      ([''1099-nec''], ''FORM_1099_NEC''),
      ([''1099-r''], ''FORM_1099_R''),
      ([''1099-g''], ''FORM_1099_G''),
      ([''1099''], ''OTHER_TAX_DOCUMENT'')]"

definition matchesIgnoringCase :: "string \<Rightarrow> string \<Rightarrow> bool" where
  "matchesIgnoringCase fname pat =
     (\<exists>pre mid post. fname = pre @ mid @ post \<and> toLowerCase mid = toLowerCase pat)"

definition inferredDocumentType :: "string \<Rightarrow> string" where
  "inferredDocumentType fname =
     (case find (\<lambda>entry. \<exists>pat \<in> set (fst entry). matchesIgnoringCase fname pat) priorityOrder of
        None \<Rightarrow> ''UNKNOWN''
      | Some entry \<Rightarrow> snd entry)"

subsection \<open>The mean of the reported confidence scores\<close>



subsection \<open>The chunks of the serialized result\<close>

text \<open>
  The result serialized to JSON, as the event stream carries it, and its consecutive
  slices of a fixed size (the last one possibly shorter).
\<close>

definition serializedResult :: "ExtractedTaxData \<Rightarrow> string" where
  "serializedResult r =
     stringify (JObj [(''documentType'', ExtractedTaxData.documentType r),
                      (''ocrText'', ExtractedTaxData.ocrText r),
                      (''extractedData'', ExtractedTaxData.extractedData r)])"

function chunksOf :: "nat \<Rightarrow> string \<Rightarrow> string list" where
  "chunksOf n s = (if n = 0 \<or> s = [] then [] else take n s # chunksOf n (drop n s))"
  by pat_completeness auto
termination
  by (relation "measure (\<lambda>(n, s). length s)") auto

declare chunksOf.simps [simp del]

subsection \<open>The document of a processing attempt\<close>

text \<open>
  A request to process starts an attempt when the caller has a session, is a user of
  the store and owns the document; \<open>attemptOn\<close> is then that document. The row of a
  document after a list of effects is \<open>rowAfter\<close>.
\<close>

definition attemptOn :: "database \<Rightarrow> string option \<Rightarrow> string \<Rightarrow> Document option" where
  "attemptOn db session docId =
     (case sessionUser session of
        None \<Rightarrow> None
      | Some mail \<Rightarrow>
          (case find (\<lambda>u. email u = mail) (users db) of
             None \<Rightarrow> None
           | Some user \<Rightarrow> findDocument db docId user))"

definition rowAfter :: "effect list \<Rightarrow> Document \<Rightarrow> Document" where
  "rowAfter es d = fold applyToDocument es d"

subsection \<open>Fuzzy matching of field names\<close>

text \<open>
  A name is normalized by lowercasing it and keeping its letters and digits. A label
  matches a canonical field name when the normalized name occurs in the normalized label
  or the normalized label in the normalized name.
\<close>

definition lowerOrDigit :: "char \<Rightarrow> bool" where
  "lowerOrDigit c =
     ((48 \<le> (of_char c :: nat) \<and> (of_char c :: nat) \<le> 57)
      \<or> (97 \<le> (of_char c :: nat) \<and> (of_char c :: nat) \<le> 122))"

definition normalized :: "string \<Rightarrow> string" where
  "normalized s = filter lowerOrDigit (toLowerCase s)"

definition fuzzyMatch :: "string \<Rightarrow> string \<Rightarrow> bool" where
  "fuzzyMatch label key =
     ((\<exists>a b. normalized label = a @ normalized key @ b)
      \<or> (\<exists>a b. normalized key = a @ normalized label @ b))"

text \<open>
  The canonical field a form field is mapped to, and the value it carries: a field
  lacking the text anchor of its name or value is mapped to none.
\<close>

definition targetKey :: "string \<Rightarrow> string list \<Rightarrow> formField \<Rightarrow> string option" where
  "targetKey fullText keys field =
     (case fieldAnchors field of
        None \<Rightarrow> None
      | Some (na, va) \<Rightarrow> find (fuzzyMatch (getText (Some na) fullText)) keys)"

definition carriedValue :: "string \<Rightarrow> formField \<Rightarrow> json" where
  "carriedValue fullText field =
     (case fieldAnchors field of
        None \<Rightarrow> JStr []
      | Some (na, va) \<Rightarrow> JStr (getText (Some va) fullText))"

definition formFieldsOf :: "aiDocument \<Rightarrow> formField list" where
  "formFieldsOf document = (case firstPageFields document of None \<Rightarrow> [] | Some fs \<Rightarrow> fs)"

subsection \<open>Authenticated, owner-verified uploads\<close>



section \<open>Example inputs\<close>

text \<open>Concrete inputs on which the theorems below are run.\<close>

definition exampleConfig :: DocumentAIConfig where
  "exampleConfig =
     \<lparr> projectId = ''tax-project'', location = ''us'', w2ProcessorId = ''w2-pipeline'',
       form1099ProcessorId = None \<rparr>"

text \<open>A form field whose name and value are the given ranges of the document text.\<close>

definition fieldAt :: "nat \<Rightarrow> nat \<Rightarrow> nat \<Rightarrow> nat \<Rightarrow> rat option \<Rightarrow> formField" where
  "fieldAt a b c d conf =
     \<lparr> fieldName = Some \<lparr> textAnchor = Some \<lparr> textSegments =
           Some [\<lparr> startIndex = Some a, endIndex = Some b \<rparr>] \<rparr> \<rparr>,
       fieldValue = Some \<lparr> textAnchor = Some \<lparr> textSegments =
           Some [\<lparr> startIndex = Some c, endIndex = Some d \<rparr>] \<rparr>,
         layout.confidence = conf \<rparr> \<rparr>"




text \<open>A stored document as the upload route creates it, and a store that holds it.\<close>

definition storedDocument :: "string \<Rightarrow> string \<Rightarrow> Document" where
  "storedDocument fname docType =
     \<lparr> Document.id = ''doc-1'', taxReturnId = ''return-1'', fileName = fname,
       fileType = ''application/pdf'', fileSize = 4,
       filePath = ''/tmp/uploads/documents/0b6f.pdf'',
       Document.documentType = docType, processingStatus = PENDING,
       Document.ocrText = None, Document.extractedData = None \<rparr>"

definition exampleStore :: "Document list \<Rightarrow> database" where
  "exampleStore ds =
     \<lparr> users = [\<lparr> User.id = ''user-1'', email = ''ann@example.org'' \<rparr>],
       taxReturns = [\<lparr> TaxReturn.id = ''return-1'', userId = ''user-1'' \<rparr>],
       documents = ds \<rparr>"

text \<open>
  The answer of the chat-completion endpoint: a status and, in the first choice, the
  content. \<open>parsedAnswer\<close> is the value the content \<open>stringify parsedAnswer\<close> parses to.
\<close>

definition parsedAnswer :: json where
  "parsedAnswer =
     JObj [(''documentType'', JStr ''W2''),
           (''ocrText'', JStr ''Form W-2 Wage and Tax Statement 2023 Wages, tips, other compensation 55000.00''),
           (''extractedData'', JObj [(''wages'', JStr ''55000.00'')])]"

definition completionWith :: "nat \<Rightarrow> string option \<Rightarrow> httpResponse" where
  "completionWith st c =
     \<lparr> status = st,
       jsonBody = Inr \<lparr> choices = Some [\<lparr> message = Some \<lparr> message.content = c \<rparr> \<rparr>] \<rparr> \<rparr>"

text \<open>
  A world without the primary provider's configuration, whose secondary provider
  answers with the given response and whose consumer behaves as given.
\<close>

definition llmWorld :: "httpResponse \<Rightarrow> nat option \<Rightarrow> world" where
  "llmWorld answer cons =
     \<lparr> GOOGLE_CLOUD_PROJECT_ID = None, GOOGLE_CLOUD_LOCATION = None,
       GOOGLE_CLOUD_W2_PROCESSOR_ID = None, GOOGLE_CLOUD_1099_PROCESSOR_ID = None,
       GOOGLE_APPLICATION_CREDENTIALS = None,
       readFile = (\<lambda>path. Inr ''%PDF''),
       toBase64 = (\<lambda>buffer. ''JVBERg==''),
       clientProcessDocument = (\<lambda>request. Inl (Thrown ''UNAVAILABLE'')),
       fetchCompletion = (\<lambda>document file. Inr answer),
       JSON_parse = (\<lambda>text. if text = stringify parsedAnswer then Some parsedAnswer else None),
       consumer = cons \<rparr>"


text \<open>
  A W-2 document in the store of its owner, and a world in which the secondary provider
  answers \<open>parsedAnswer\<close>.
\<close>

definition w2Document :: Document where
  "w2Document = storedDocument ''w2.pdf'' ''W2''"

definition w2Store :: database where
  "w2Store = exampleStore [w2Document]"

definition annSession :: "string option" where
  "annSession = Some ''ann@example.org''"




text \<open>
  Provider documents with form fields only: one field labelled \<open>Federal income tax
  withheld\<close> with the value \<open>1200\<close>; and the field \<open>Payer name\<close> with the value \<open>Acme
  Corp\<close>, alone and followed by the field \<open>Payer\<close> with the value \<open>Beta LLC\<close>.
\<close>

definition fieldsDocument :: "string \<Rightarrow> formField list \<Rightarrow> aiDocument" where
  "fieldsDocument t fs =
     \<lparr> docText = t, entities = None, pages = Some [\<lparr> formFields = Some fs \<rparr>] \<rparr>"

definition labelledDocument :: aiDocument where
  "labelledDocument =
     fieldsDocument ''Federal income tax withheld 1200'' [fieldAt 0 27 28 32 None]"

definition payerDocument :: aiDocument where
  "payerDocument =
     fieldsDocument ''Payer name: Acme Corp; Payer: Beta LLC'' [fieldAt 0 10 12 21 None]"

definition overwritingDocument :: aiDocument where
  "overwritingDocument =
     fieldsDocument ''Payer name: Acme Corp; Payer: Beta LLC''
       [fieldAt 0 10 12 21 None, fieldAt 23 28 30 38 None]"





section \<open>Properties\<close>

subsection \<open>Strings\<close>

lemma startsWith_iff: "startsWith s p \<longleftrightarrow> (\<exists>post. s = p @ post)"
  by (induction s p rule: startsWith.induct) auto

lemma includesStr_iff: "includesStr hay needle \<longleftrightarrow> (\<exists>pre post. hay = pre @ needle @ post)"
proof (induction hay)
  case Nil
  then show ?case by auto
next
  case (Cons c cs)
  show ?case
  proof
    assume "includesStr (c # cs) needle"
    then consider "startsWith (c # cs) needle" | "includesStr cs needle" by auto
    then show "\<exists>pre post. c # cs = pre @ needle @ post"
    proof cases
      case 1
      then obtain post where "c # cs = needle @ post" by (auto simp: startsWith_iff)
      then have "c # cs = [] @ needle @ post" by simp
      then show ?thesis by blast
    next
      case 2
      with Cons obtain pre post where "cs = pre @ needle @ post" by auto
      then have "c # cs = (c # pre) @ needle @ post" by simp
      then show ?thesis by blast
    qed
  next
    assume "\<exists>pre post. c # cs = pre @ needle @ post"
    then obtain pre post where eq: "c # cs = pre @ needle @ post" by auto
    show "includesStr (c # cs) needle"
    proof (cases pre)
      case Nil
      with eq have "startsWith (c # cs) needle" by (auto simp: startsWith_iff)
      then show ?thesis by simp
    next
      case (Cons a pre')
      with eq have "cs = pre' @ needle @ post" by simp
      with Cons.IH have "includesStr cs needle" by auto
      then show ?thesis by simp
    qed
  qed
qed

lemma includes_lower_iff:
  "includesStr (toLowerCase fname) (toLowerCase pat) \<longleftrightarrow> matchesIgnoringCase fname pat"
proof
  assume "includesStr (toLowerCase fname) (toLowerCase pat)"
  then obtain pre post where "map toLowerChar fname = pre @ map toLowerChar pat @ post"
    by (auto simp: includesStr_iff toLowerCase_def)
  then obtain a r where fr: "fname = a @ r" and r: "map toLowerChar pat @ post = map toLowerChar r"
    unfolding map_eq_append_conv by blast
  from r obtain b c where "r = b @ c" "map toLowerChar pat = map toLowerChar b"
    unfolding append_eq_map_conv by blast
  with fr have "fname = a @ b @ c \<and> toLowerCase b = toLowerCase pat"
    by (simp add: toLowerCase_def)
  then show "matchesIgnoringCase fname pat"
    unfolding matchesIgnoringCase_def by blast
next
  assume "matchesIgnoringCase fname pat"
  then obtain a b c where "fname = a @ b @ c" "map toLowerChar b = map toLowerChar pat"
    by (auto simp: matchesIgnoringCase_def toLowerCase_def)
  then have "map toLowerChar fname = map toLowerChar a @ map toLowerChar pat @ map toLowerChar c"
    by simp
  then show "includesStr (toLowerCase fname) (toLowerCase pat)"
    unfolding includesStr_iff toLowerCase_def by blast
qed

subsection \<open>The document type guessed from the file name\<close>

lemma patterns_lower:
  "toLowerCase ''w-2'' = ''w-2''" "toLowerCase ''w2'' = ''w2''"
  "toLowerCase ''1099-int'' = ''1099-int''" "toLowerCase ''1099-div'' = ''1099-div''"
  "toLowerCase ''1099-misc'' = ''1099-misc''" "toLowerCase ''1099-nec'' = ''1099-nec''"
  "toLowerCase ''1099-r'' = ''1099-r''" "toLowerCase ''1099-g'' = ''1099-g''"
  "toLowerCase ''1099'' = ''1099''"
  by code_simp+

lemmas includes_patterns =
  includes_lower_iff[of _ "''w-2''", unfolded patterns_lower]
  includes_lower_iff[of _ "''w2''", unfolded patterns_lower]
  includes_lower_iff[of _ "''1099-int''", unfolded patterns_lower]
  includes_lower_iff[of _ "''1099-div''", unfolded patterns_lower]
  includes_lower_iff[of _ "''1099-misc''", unfolded patterns_lower]
  includes_lower_iff[of _ "''1099-nec''", unfolded patterns_lower]
  includes_lower_iff[of _ "''1099-r''", unfolded patterns_lower]
  includes_lower_iff[of _ "''1099-g''", unfolded patterns_lower]
  includes_lower_iff[of _ "''1099''", unfolded patterns_lower]

lemma determineDocumentType_refines:
  "determineDocumentType fname = inferredDocumentType fname"
  unfolding determineDocumentType_def inferredDocumentType_def priorityOrder_def Let_def
  by (simp add: includes_patterns)

lemma determineDocumentType_examples:
  "determineDocumentType ''My-W2-2023.pdf'' = ''W2''"
  "determineDocumentType ''1099-div-form.png'' = ''FORM_1099_DIV''"
  "determineDocumentType ''form-1099-xyz.pdf'' = ''OTHER_TAX_DOCUMENT''"
  "determineDocumentType ''receipt.pdf'' = ''UNKNOWN''"
  by code_simp+

text \<open>
  C2: for every uploaded file name, the document type the upload route infers is the one
  the priority order gives by case-insensitive substring match, first match wins:
  \<open>w-2\<close> or \<open>w2\<close> gives W2, then \<open>1099-int\<close>, \<open>1099-div\<close>, \<open>1099-misc\<close>, \<open>1099-nec\<close>,
  \<open>1099-r\<close>, \<open>1099-g\<close> give their forms, then a plain \<open>1099\<close> gives OTHER_TAX_DOCUMENT,
  and anything else UNKNOWN; so \<open>My-W2-2023.pdf\<close> gives W2, \<open>form-1099-xyz.pdf\<close> gives
  OTHER_TAX_DOCUMENT and \<open>receipt.pdf\<close> gives UNKNOWN.
\<close>

theorem C2_document_type_priority:
  "(\<forall>fname. determineDocumentType fname = inferredDocumentType fname)
   \<and> determineDocumentType ''My-W2-2023.pdf'' = ''W2''
   \<and> determineDocumentType ''1099-div-form.png'' = ''FORM_1099_DIV''
   \<and> determineDocumentType ''form-1099-xyz.pdf'' = ''OTHER_TAX_DOCUMENT''
   \<and> determineDocumentType ''receipt.pdf'' = ''UNKNOWN''"
  using determineDocumentType_refines determineDocumentType_examples by simp

theorem C2_document_type_priority_witness:
  "inferredDocumentType ''w2-and-1099-int.PDF'' = ''W2''
   \<and> inferredDocumentType ''Form-1099-INT.pdf'' = ''FORM_1099_INT''
   \<and> inferredDocumentType ''1099-Rollover.tiff'' = ''FORM_1099_R''"
proof -
  have run: "determineDocumentType ''w2-and-1099-int.PDF'' = ''W2''
             \<and> determineDocumentType ''Form-1099-INT.pdf'' = ''FORM_1099_INT''
             \<and> determineDocumentType ''1099-Rollover.tiff'' = ''FORM_1099_R''"
    by code_simp
  from C2_document_type_priority have "\<forall>fname. determineDocumentType fname = inferredDocumentType fname"
    by (rule conjunct1)
  with run show ?thesis by simp
qed

subsection \<open>The processor pipeline\<close>

text \<open>
  C10: a document type that is neither W2 nor one of the six 1099 variants (such as
  UNKNOWN or OTHER_TAX_DOCUMENT) is routed to the W2 pipeline: the processor name is that
  of the W2 pipeline, and once the file is read the provider is called with a request of
  that name. A 1099 variant with no 1099 pipeline configured (absent or empty) fails
  with the error \<open>No 1099 processor configured for ...\<close>, and no request is made.
\<close>

theorem C10_processor_routing:
  "(docType \<notin> {''W2'', ''FORM_1099_INT'', ''FORM_1099_DIV'', ''FORM_1099_MISC'',
                 ''FORM_1099_NEC'', ''FORM_1099_R'', ''FORM_1099_G''}
      \<longrightarrow> getProcessorName config docType
            = Inr (processorPath (projectId config) (location config) (w2ProcessorId config))
          \<and> (\<forall>buffer. readFile w path = Inr buffer \<longrightarrow>
                processDocument w config path docType
                = (case clientProcessDocument w
                          \<lparr> processRequest.name =
                              processorPath (projectId config) (location config)
                                (w2ProcessorId config),
                            processRequest.content = toBase64 w buffer,
                            mimeType = getMimeType path \<rparr> of
                     Inl e \<Rightarrow> Inl e
                   | Inr None \<Rightarrow> Inl (Error ''No document returned from processing'')
                   | Inr (Some document) \<Rightarrow> Inr (transformToTaxData document docType))))
   \<and> (docType \<in> {''FORM_1099_INT'', ''FORM_1099_DIV'', ''FORM_1099_MISC'',
                  ''FORM_1099_NEC'', ''FORM_1099_R'', ''FORM_1099_G''}
        \<and> (form1099ProcessorId config = None \<or> form1099ProcessorId config = Some [])
      \<longrightarrow> getProcessorName config docType
            = Inl (Error (''No 1099 processor configured for '' @ docType))
          \<and> processDocument w config path docType
            = Inl (Error (''No 1099 processor configured for '' @ docType)))"
  unfolding processDocument_def getProcessorName_def is1099Type_def
  by (auto split: option.splits)

theorem C10_processor_routing_witness:
  "getProcessorName exampleConfig ''UNKNOWN''
     = Inr ''projects/tax-project/locations/us/processors/w2-pipeline''
   \<and> getProcessorName exampleConfig ''OTHER_TAX_DOCUMENT''
     = Inr ''projects/tax-project/locations/us/processors/w2-pipeline''
   \<and> getProcessorName exampleConfig ''FORM_1099_R''
     = Inl (Error ''No 1099 processor configured for FORM_1099_R'')
   \<and> processDocument (llmWorld (completionWith 200 None) None) exampleConfig
        ''/tmp/uploads/documents/0b6f.pdf'' ''FORM_1099_G''
     = Inl (Error ''No 1099 processor configured for FORM_1099_G'')"
  using C10_processor_routing[of "''UNKNOWN''" exampleConfig]
        C10_processor_routing[of "''OTHER_TAX_DOCUMENT''" exampleConfig]
        C10_processor_routing[of "''FORM_1099_R''" exampleConfig]
        C10_processor_routing[of "''FORM_1099_G''" exampleConfig
          "llmWorld (completionWith 200 None) None" "''/tmp/uploads/documents/0b6f.pdf''"]
  by (simp add: exampleConfig_def processorPath_def)

subsection \<open>Confidence\<close>










subsection \<open>Chunks and the loop that sends them\<close>

lemma chunksOf_Nil [simp]: "chunksOf n [] = []"
  by (simp add: chunksOf.simps)

lemma chunksOf_step: "0 < n \<Longrightarrow> s \<noteq> [] \<Longrightarrow> chunksOf n s = take n s # chunksOf n (drop n s)"
  by (subst chunksOf.simps) simp




lemma slice_take_drop: "slice s a b = take (b - a) (drop a s)"
proof (cases "a \<le> length s")
  case True
  then show ?thesis by (cases "b \<le> length s") (simp_all add: slice_def Let_def min_def)
next
  case False
  then show ?thesis by (simp add: slice_def Let_def min_def)
qed


lemma canEnqueue_mono: "canEnqueue limit n \<Longrightarrow> m \<le> n \<Longrightarrow> canEnqueue limit m"
  by (auto simp: canEnqueue_def split: option.splits)

lemma sendChunks_all:
  "canEnqueue limit (n + length (chunksOf chunkSize (drop i json))) \<Longrightarrow>
   sendChunks limit json i n
     = (map (\<lambda>c. Enqueue (contentEvent c)) (chunksOf chunkSize (drop i json)), None)"
proof (induction limit json i n rule: sendChunks.induct)
  case (1 limit json i n)
  show ?case
  proof (cases "i < length json")
    case False
    then show ?thesis by (simp add: sendChunks.simps[of limit json i n])
  next
    case True
    then have ne: "drop i json \<noteq> []" by simp
    have pos: "0 < chunkSize" by (simp add: chunkSize_def)
    have step: "chunksOf chunkSize (drop i json)
                = take chunkSize (drop i json) # chunksOf chunkSize (drop (i + chunkSize) json)"
      using chunksOf_step[OF pos ne] by (simp add: add.commute)
    from 1(2) have can: "canEnqueue limit n"
      by (rule canEnqueue_mono) simp
    from 1(2) have can': "canEnqueue limit (n + 1 + length (chunksOf chunkSize (drop (i + chunkSize) json)))"
      by (simp add: step)
    have ih: "sendChunks limit json (i + chunkSize) (Suc n)
              = (map (\<lambda>c. Enqueue (contentEvent c)) (chunksOf chunkSize (drop (i + chunkSize) json)), None)"
      using 1(1)[OF True refl can can'] by simp
    show ?thesis
      by (subst sendChunks.simps) (simp add: True can ih step slice_take_drop Let_def)
  qed
qed

lemma sendChunks_enqueues:
  "\<exists>cs. fst (sendChunks limit json i n) = map (\<lambda>c. Enqueue (contentEvent c)) cs"
proof (induction limit json i n rule: sendChunks.induct)
  case (1 limit json i n)
  show ?case
  proof (cases "i < length json \<and> canEnqueue limit n")
    case False
    then have "fst (sendChunks limit json i n) = map (\<lambda>c. Enqueue (contentEvent c)) []"
      by (subst sendChunks.simps) (auto simp: Let_def)
    then show ?thesis by blast
  next
    case True
    with 1 obtain cs where
      "fst (sendChunks limit json (i + chunkSize) (n + 1)) = map (\<lambda>c. Enqueue (contentEvent c)) cs"
      by blast
    with True have "fst (sendChunks limit json i n)
        = map (\<lambda>c. Enqueue (contentEvent c)) (slice json i (i + chunkSize) # cs)"
      by (subst sendChunks.simps) (simp add: Let_def)
    then show ?thesis by blast
  qed
qed

lemma sendChunks_exn:
  "snd (sendChunks limit json i n) = None \<or> snd (sendChunks limit json i n) = Some TypeError"
proof (induction limit json i n rule: sendChunks.induct)
  case (1 limit json i n)
  show ?case
  proof (cases "i < length json \<and> canEnqueue limit n")
    case False
    then show ?thesis
      by (subst sendChunks.simps, subst (2) sendChunks.simps) (auto simp: Let_def)
  next
    case True
    with 1 show ?thesis
      by (subst sendChunks.simps, subst (2) sendChunks.simps) (simp add: Let_def)
  qed
qed

subsection \<open>The process route: effects and rows\<close>

lemma statusWrites_append [simp]:
  "statusWrites i (xs @ ys) = statusWrites i xs @ statusWrites i ys"
  by (induction i xs rule: statusWrites.induct) auto

lemma invoked_append [simp]: "invoked (xs @ ys) = invoked xs @ invoked ys"
  by (induction xs rule: invoked.induct) auto

lemma enqueued_append [simp]: "enqueued (xs @ ys) = enqueued xs @ enqueued ys"
  by (induction xs rule: enqueued.induct) auto

lemma statusWrites_enqueues [simp]:
  "statusWrites i (map (\<lambda>c. Enqueue (f c)) cs) = []"
  by (induction cs) auto

lemma invoked_enqueues [simp]: "invoked (map (\<lambda>c. Enqueue (f c)) cs) = []"
  by (induction cs) auto

lemma enqueued_enqueues [simp]: "enqueued (map (\<lambda>c. Enqueue (f c)) cs) = map f cs"
  by (induction cs) auto

lemma chooseProvider_effects:
  "fst (chooseProvider w d) = [Invoke Secondary]
   \<or> fst (chooseProvider w d) = [Invoke Primary]
   \<or> fst (chooseProvider w d) = [Invoke Primary, Invoke Secondary]"
  by (auto simp: chooseProvider_def split: sum.splits)

lemma statusWrites_chooseProvider [simp]: "statusWrites i (fst (chooseProvider w d)) = []"
  using chooseProvider_effects[of w d] by auto

lemma enqueued_chooseProvider [simp]: "enqueued (fst (chooseProvider w d)) = []"
  using chooseProvider_effects[of w d] by auto

lemma sendChunks_None:
  "snd (sendChunks limit json i n) = None \<Longrightarrow>
   fst (sendChunks limit json i n)
     = map (\<lambda>c. Enqueue (contentEvent c)) (chunksOf chunkSize (drop i json))"
proof (induction limit json i n rule: sendChunks.induct)
  case (1 limit json i n)
  show ?case
  proof (cases "i < length json")
    case False
    then show ?thesis by (subst sendChunks.simps) simp
  next
    case True
    have can: "canEnqueue limit n"
    proof (rule ccontr)
      assume "\<not> canEnqueue limit n"
      with True have "snd (sendChunks limit json i n) = Some TypeError"
        by (subst sendChunks.simps) (simp add: Let_def)
      with 1(2) show False by simp
    qed
    with True 1(2) have "snd (sendChunks limit json (i + chunkSize) (n + 1)) = None"
      by (subst (asm) sendChunks.simps) (simp add: Let_def)
    with 1(1) True can have ih: "fst (sendChunks limit json (i + chunkSize) (Suc n))
      = map (\<lambda>c. Enqueue (contentEvent c)) (chunksOf chunkSize (drop (i + chunkSize) json))"
      by simp
    from True have ne: "drop i json \<noteq> []" by simp
    have step: "chunksOf chunkSize (drop i json)
                = take chunkSize (drop i json) # chunksOf chunkSize (drop (i + chunkSize) json)"
      using chunksOf_step[OF _ ne, of chunkSize] by (simp add: add.commute chunkSize_def)
    show ?thesis
      by (subst sendChunks.simps) (simp add: True can ih step slice_take_drop Let_def)
  qed
qed

lemma processPOST_attempt:
  assumes "attemptOn db session docId = Some document"
  shows "processPOST w db session docId =
     (case snd (chooseProvider w document) of
        Inl e \<Rightarrow> (Json 500 (errorBody ''Internal server error''),
                  [UpdateStatus docId PROCESSING] @ fst (chooseProvider w document)
                  @ [UpdateStatus docId FAILED])
      | Inr r \<Rightarrow> (EventStream,
                  [UpdateStatus docId PROCESSING] @ fst (chooseProvider w document)
                  @ streamStart w docId r))"
  using assms
  by (auto simp: attemptOn_def processPOST_def Let_def split: option.splits sum.splits)


lemma attemptOn_id:
  assumes "attemptOn db session docId = Some document"
  shows "Document.id document = docId"
  using assms
  by (auto simp: attemptOn_def findDocument_def find_Some_iff split: option.splits)

lemma rowAfter_append [simp]: "rowAfter (xs @ ys) d = rowAfter ys (rowAfter xs d)"
  by (simp add: rowAfter_def)

lemma rowAfter_Nil [simp]: "rowAfter [] d = d"
  by (simp add: rowAfter_def)

lemma rowAfter_Cons [simp]: "rowAfter (e # es) d = rowAfter es (applyToDocument e d)"
  by (simp add: rowAfter_def)

lemma applyToDocument_other [simp]:
  "applyToDocument (Invoke p) d = d"
  "applyToDocument (Enqueue x) d = d"
  "applyToDocument Close d = d"
  "applyToDocument (ControllerError e) d = d"
  by (simp_all add: applyToDocument_def)

lemma applyToDocument_status [simp]:
  "Document.id d = i \<Longrightarrow> applyToDocument (UpdateStatus i st) d = d\<lparr> processingStatus := st \<rparr>"
  by (simp add: applyToDocument_def)

lemma applyToDocument_completed [simp]:
  "Document.id d = i \<Longrightarrow> applyToDocument (UpdateCompleted i r) d
     = d\<lparr> Document.ocrText := Some (ExtractedTaxData.ocrText r),
          Document.extractedData := Some r, processingStatus := COMPLETED \<rparr>"
  by (simp add: applyToDocument_def)

lemma rowAfter_enqueues [simp]: "rowAfter (map (\<lambda>c. Enqueue (f c)) cs) d = d"
  by (induction cs) auto

lemma rowAfter_chooseProvider [simp]: "rowAfter (fst (chooseProvider w doc)) d = d"
  using chooseProvider_effects[of w doc] by auto


lemma createdDocuments_append [simp]:
  "createdDocuments (xs @ ys) = createdDocuments xs @ createdDocuments ys"
  by (induction xs rule: createdDocuments.induct) auto

lemma createdDocuments_enqueues [simp]: "createdDocuments (map (\<lambda>c. Enqueue (f c)) cs) = []"
  by (induction cs) auto

lemma createdDocuments_chooseProvider [simp]: "createdDocuments (fst (chooseProvider w d)) = []"
  using chooseProvider_effects[of w d] by auto

lemma streamStart_unfold:
  "streamStart w i r =
     (case snd (sendChunks (consumer w) (serializedResult r) 0 0) of
        Some e \<Rightarrow> fst (sendChunks (consumer w) (serializedResult r) 0 0)
                  @ [UpdateStatus i FAILED, ControllerError e]
      | None \<Rightarrow>
          if canEnqueue (consumer w) (length (fst (sendChunks (consumer w) (serializedResult r) 0 0)))
          then fst (sendChunks (consumer w) (serializedResult r) 0 0)
               @ [UpdateCompleted i r, Enqueue doneEvent, Close]
          else fst (sendChunks (consumer w) (serializedResult r) 0 0)
               @ [UpdateCompleted i r, UpdateStatus i FAILED, ControllerError TypeError])"
  unfolding streamStart_def serializedResult_def Let_def by (rule refl)

lemma streamStart_delivered:
  assumes "canEnqueue (consumer w) (length (chunksOf chunkSize (serializedResult r)))"
  shows "streamStart w i r
           = map (\<lambda>c. Enqueue (contentEvent c)) (chunksOf chunkSize (serializedResult r))
             @ [UpdateCompleted i r, Enqueue doneEvent, Close]"
proof -
  from assms have "sendChunks (consumer w) (serializedResult r) 0 0
     = (map (\<lambda>c. Enqueue (contentEvent c)) (chunksOf chunkSize (serializedResult r)), None)"
    using sendChunks_all[of "consumer w" 0 0 "serializedResult r"] by simp
  with assms show ?thesis by (simp add: streamStart_unfold)
qed

lemma streamStart_cancelled:
  assumes "\<not> canEnqueue (consumer w) (length (chunksOf chunkSize (serializedResult r)))"
  shows "(\<exists>cs. streamStart w i r = map (\<lambda>c. Enqueue (contentEvent c)) cs
                 @ [UpdateStatus i FAILED, ControllerError TypeError])
         \<or> streamStart w i r
             = map (\<lambda>c. Enqueue (contentEvent c)) (chunksOf chunkSize (serializedResult r))
               @ [UpdateCompleted i r, UpdateStatus i FAILED, ControllerError TypeError]"
proof -
  let ?sent = "sendChunks (consumer w) (serializedResult r) 0 0"
  obtain cs where cs: "fst ?sent = map (\<lambda>c. Enqueue (contentEvent c)) cs"
    using sendChunks_enqueues by blast
  consider (thrown) "snd ?sent = Some TypeError" | (sent) "snd ?sent = None"
    using sendChunks_exn[of "consumer w" "serializedResult r" 0 0] by auto
  then show ?thesis
  proof cases
    case thrown
    with cs show ?thesis by (auto simp: streamStart_unfold)
  next
    case sent
    from sendChunks_None[OF sent]
    have "fst ?sent = map (\<lambda>c. Enqueue (contentEvent c)) (chunksOf chunkSize (serializedResult r))"
      by simp
    with sent assms show ?thesis by (simp add: streamStart_unfold)
  qed
qed

lemma createdDocuments_streamStart [simp]: "createdDocuments (streamStart w i r) = []"
proof (cases "canEnqueue (consumer w) (length (chunksOf chunkSize (serializedResult r)))")
  case True
  then show ?thesis by (simp add: streamStart_delivered)
next
  case False
  from streamStart_cancelled[OF False, of i] show ?thesis
    by (elim disjE exE) simp_all
qed


subsection \<open>The event stream of a successful attempt\<close>




subsection \<open>Status transitions of a processing attempt\<close>


lemma chooseProvider_secondary:
  "Secondary \<in> set (invoked (fst (chooseProvider w d))) \<Longrightarrow>
   snd (chooseProvider w d) = processWithLLM w d"
  by (auto simp: chooseProvider_def split: if_splits sum.splits)

lemma chooseProvider_failed_secondary:
  "snd (chooseProvider w d) = Inl e \<Longrightarrow> Secondary \<in> set (invoked (fst (chooseProvider w d)))"
  by (auto simp: chooseProvider_def split: if_splits sum.splits)


lemma processPOST_failed_extraction:
  assumes att: "attemptOn db session docId = Some document"
    and err: "snd (chooseProvider w document) = Inl e"
  shows "fst (processPOST w db session docId) = Json 500 (errorBody ''Internal server error'')"
    and "statusWrites docId (snd (processPOST w db session docId)) = [PROCESSING, FAILED]"
    and "processingStatus (rowAfter (snd (processPOST w db session docId)) document) = FAILED"
    and "Document.extractedData (rowAfter (snd (processPOST w db session docId)) document)
           = Document.extractedData document"
    and "\<forall>x. ControllerError x \<notin> set (snd (processPOST w db session docId))"
  using chooseProvider_effects[of w document]
  by (auto simp: processPOST_attempt[OF att] err attemptOn_id[OF att])


lemma notin_enqueues [simp]: "ControllerError x \<notin> set (map (\<lambda>c. Enqueue (f c)) cs)"
  by auto

lemma notin_chooseProvider [simp]: "ControllerError x \<notin> set (fst (chooseProvider w d))"
  using chooseProvider_effects[of w d] by auto





subsection \<open>Provider selection\<close>

lemma invoked_streamStart [simp]: "invoked (streamStart w i r) = []"
proof (cases "canEnqueue (consumer w) (length (chunksOf chunkSize (serializedResult r)))")
  case True
  then show ?thesis by (simp add: streamStart_delivered)
next
  case False
  from streamStart_cancelled[OF False, of i] show ?thesis
    by (elim disjE exE) simp_all
qed


lemma completed_chooseProvider [simp]: "UpdateCompleted i x \<notin> set (fst (chooseProvider w d))"
  using chooseProvider_effects[of w d] by auto



subsection \<open>Failures of the secondary provider\<close>

text \<open>
  C9: in a call of the secondary provider, a response whose status is not successful
  makes the call fail with the error \<open>LLM API error: <status>\<close> (the provider error);
  a content that is absent or empty makes it fail with \<open>No content returned from LLM
  API\<close>, and a content that is not JSON makes it fail with the SyntaxError of
  \<open>JSON.parse\<close> (the parse errors). Whenever the secondary provider is invoked in an
  attempt and fails, the document is marked FAILED and the response is the generic
  body \<open>Internal server error\<close> with status 500.
\<close>

theorem C9_secondary_failures:
  "(\<forall>buffer response.
       readFile w (filePath document) = Inr buffer
       \<and> fetchCompletion w document (toBase64 w buffer) = Inr response \<and> \<not> ok response
       \<longrightarrow> processWithLLM w document
             = Inl (Error (''LLM API error: '' @ showNat (status response))))
   \<and> (\<forall>buffer response result cs.
       readFile w (filePath document) = Inr buffer
       \<and> fetchCompletion w document (toBase64 w buffer) = Inr response \<and> ok response
       \<and> jsonBody response = Inr result \<and> choices result = Some cs
       \<and> (firstContent cs = None \<or> firstContent cs = Some [])
       \<longrightarrow> processWithLLM w document = Inl (Error ''No content returned from LLM API''))
   \<and> (\<forall>buffer response result cs c.
       readFile w (filePath document) = Inr buffer
       \<and> fetchCompletion w document (toBase64 w buffer) = Inr response \<and> ok response
       \<and> jsonBody response = Inr result \<and> choices result = Some cs
       \<and> firstContent cs = Some c \<and> c \<noteq> [] \<and> JSON_parse w c = None
       \<longrightarrow> processWithLLM w document = Inl SyntaxError)
   \<and> (\<forall>e. attemptOn db session docId = Some document
          \<and> Secondary \<in> set (invoked (snd (processPOST w db session docId)))
          \<and> processWithLLM w document = Inl e
       \<longrightarrow> fst (processPOST w db session docId) = Json 500 (errorBody ''Internal server error'')
           \<and> statusWrites docId (snd (processPOST w db session docId)) = [PROCESSING, FAILED]
           \<and> processingStatus (rowAfter (snd (processPOST w db session docId)) document) = FAILED)"
proof -
  have p1: "\<forall>buffer response.
       readFile w (filePath document) = Inr buffer
       \<and> fetchCompletion w document (toBase64 w buffer) = Inr response \<and> \<not> ok response
       \<longrightarrow> processWithLLM w document
             = Inl (Error (''LLM API error: '' @ showNat (status response)))"
    by (simp add: processWithLLM_def)
  have p2: "\<forall>buffer response result cs.
       readFile w (filePath document) = Inr buffer
       \<and> fetchCompletion w document (toBase64 w buffer) = Inr response \<and> ok response
       \<and> jsonBody response = Inr result \<and> choices result = Some cs
       \<and> (firstContent cs = None \<or> firstContent cs = Some [])
       \<longrightarrow> processWithLLM w document = Inl (Error ''No content returned from LLM API'')"
    by (auto simp: processWithLLM_def)
  have p3: "\<forall>buffer response result cs c.
       readFile w (filePath document) = Inr buffer
       \<and> fetchCompletion w document (toBase64 w buffer) = Inr response \<and> ok response
       \<and> jsonBody response = Inr result \<and> choices result = Some cs
       \<and> firstContent cs = Some c \<and> c \<noteq> [] \<and> JSON_parse w c = None
       \<longrightarrow> processWithLLM w document = Inl SyntaxError"
    by (simp add: processWithLLM_def)
  have p4: "\<forall>e. attemptOn db session docId = Some document
          \<and> Secondary \<in> set (invoked (snd (processPOST w db session docId)))
          \<and> processWithLLM w document = Inl e
       \<longrightarrow> fst (processPOST w db session docId) = Json 500 (errorBody ''Internal server error'')
           \<and> statusWrites docId (snd (processPOST w db session docId)) = [PROCESSING, FAILED]
           \<and> processingStatus (rowAfter (snd (processPOST w db session docId)) document) = FAILED"
  proof (intro allI impI, elim conjE)
    fix e
    assume att: "attemptOn db session docId = Some document"
      and sec: "Secondary \<in> set (invoked (snd (processPOST w db session docId)))"
      and err: "processWithLLM w document = Inl e"
    have "invoked (snd (processPOST w db session docId)) = invoked (fst (chooseProvider w document))"
      by (simp add: processPOST_attempt[OF att] split: sum.splits)
    with sec have "snd (chooseProvider w document) = processWithLLM w document"
      using chooseProvider_secondary by simp
    with err have "snd (chooseProvider w document) = Inl e" by simp
    from processPOST_failed_extraction(1-3)[OF att this]
    show "fst (processPOST w db session docId) = Json 500 (errorBody ''Internal server error'')
           \<and> statusWrites docId (snd (processPOST w db session docId)) = [PROCESSING, FAILED]
           \<and> processingStatus (rowAfter (snd (processPOST w db session docId)) document) = FAILED"
      by simp
  qed
  from p1 p2 p3 p4 show ?thesis by (intro conjI)
qed


theorem C9_secondary_failures_witness:
  "\<not> ok (completionWith 503 None)
   \<and> processWithLLM (llmWorld (completionWith 503 None) None) w2Document
       = Inl (Error ''LLM API error: 503'')
   \<and> processWithLLM (llmWorld (completionWith 200 (Some [])) None) w2Document
       = Inl (Error ''No content returned from LLM API'')
   \<and> processWithLLM (llmWorld (completionWith 200 (Some ''Sorry, I cannot read this file.'')) None)
         w2Document
       = Inl SyntaxError
   \<and> fst (processPOST (llmWorld (completionWith 200 (Some ''Sorry, I cannot read this file.'')) None)
            w2Store annSession ''doc-1'')
       = Json 500 (errorBody ''Internal server error'')
   \<and> statusWrites ''doc-1''
         (snd (processPOST (llmWorld (completionWith 503 None) None) w2Store annSession ''doc-1''))
       = [PROCESSING, FAILED]"
proof -
  let ?w503 = "llmWorld (completionWith 503 None) None"
  let ?wEmpty = "llmWorld (completionWith 200 (Some [])) None"
  let ?wBad = "llmWorld (completionWith 200 (Some ''Sorry, I cannot read this file.'')) None"
  have nok: "\<not> ok (completionWith 503 None)" by code_simp
  have okk: "ok (completionWith 200 c)" for c by (simp add: ok_def completionWith_def)
  have rd: "readFile (llmWorld a None) (filePath w2Document) = Inr ''%PDF''" for a
    by (simp add: llmWorld_def)
  have ft: "fetchCompletion (llmWorld a None) w2Document (toBase64 (llmWorld a None) ''%PDF'') = Inr a" for a
    by (simp add: llmWorld_def)
  have st: "showNat (status (completionWith 503 None)) = ''503''" by code_simp
  have body: "jsonBody (completionWith 200 c)
              = Inr \<lparr> choices = Some [\<lparr> message = Some \<lparr> message.content = c \<rparr> \<rparr>] \<rparr>" for c
    by (simp add: completionWith_def)
  have fc: "firstContent [\<lparr> message = Some \<lparr> message.content = c \<rparr> \<rparr>] = c" for c
    by (simp add: firstContent_def)
  have np: "JSON_parse ?wBad ''Sorry, I cannot read this file.'' = None" by code_simp
  have att: "attemptOn w2Store annSession ''doc-1'' = Some w2Document" by code_simp
  have sec: "Secondary \<in> set (invoked (snd (processPOST (llmWorld a None) w2Store annSession ''doc-1'')))" for a
  proof -
    have "\<not> useDocumentAI (llmWorld a None)"
      by (simp add: useDocumentAI_def llmWorld_def isSet_def)
    then show ?thesis
      by (simp add: processPOST_attempt[OF att] chooseProvider_def split: sum.splits)
  qed
  from C9_secondary_failures[of ?w503 w2Document w2Store annSession "''doc-1''"]
       rd[of "completionWith 503 None"] ft[of "completionWith 503 None"] nok st
  have a: "processWithLLM ?w503 w2Document = Inl (Error ''LLM API error: 503'')"
    by (metis append.simps)
  from C9_secondary_failures[of ?wEmpty w2Document w2Store annSession "''doc-1''"]
       rd[of "completionWith 200 (Some [])"] ft[of "completionWith 200 (Some [])"]
       okk[of "Some []"] body[of "Some []"] fc[of "Some []"]
  have b: "processWithLLM ?wEmpty w2Document = Inl (Error ''No content returned from LLM API'')"
    by (metis completion.select_convs(1))
  from C9_secondary_failures[of ?wBad w2Document w2Store annSession "''doc-1''"]
       rd[of "completionWith 200 (Some ''Sorry, I cannot read this file.'')"]
       ft[of "completionWith 200 (Some ''Sorry, I cannot read this file.'')"]
       okk[of "Some ''Sorry, I cannot read this file.''"]
       body[of "Some ''Sorry, I cannot read this file.''"]
       fc[of "Some ''Sorry, I cannot read this file.''"] np
  have c: "processWithLLM ?wBad w2Document = Inl SyntaxError"
    by (metis completion.select_convs(1) list.distinct(1))
  from C9_secondary_failures[of ?wBad w2Document w2Store annSession "''doc-1''"] att sec c
  have d: "fst (processPOST ?wBad w2Store annSession ''doc-1'')
           = Json 500 (errorBody ''Internal server error'')"
    by blast
  from C9_secondary_failures[of ?w503 w2Document w2Store annSession "''doc-1''"] att sec a
  have e: "statusWrites ''doc-1'' (snd (processPOST ?w503 w2Store annSession ''doc-1''))
           = [PROCESSING, FAILED]"
    by blast
  from nok a b c d e show ?thesis by blast
qed

subsection \<open>The generic form-field path\<close>

lemma of_char_bound: "(of_char c :: nat) < 256"
proof -
  have "(of_char c :: nat) = of_char c mod 256" by (simp only: of_char_mod_256)
  then show ?thesis by (metis mod_less_divisor zero_less_numeral)
qed

lemma alnum_lower: "isAlnum (toLowerChar c) = lowerOrDigit (toLowerChar c)"
proof -
  let ?n = "of_char c :: nat"
  have b: "?n < 256" by (rule of_char_bound)
  show ?thesis
  proof (cases "(65 \<le> ?n \<and> ?n \<le> 90) \<or> (192 \<le> ?n \<and> ?n \<le> 222 \<and> ?n \<noteq> 215)")
    case True
    then have "(of_char (toLowerChar c) :: nat) = ?n + 32"
      using b by (auto simp: toLowerChar_def Let_def)
    with True show ?thesis by (auto simp: isAlnum_def lowerOrDigit_def Let_def)
  next
    case False
    then have "toLowerChar c = c" by (auto simp: toLowerChar_def Let_def)
    with False show ?thesis by (auto simp: isAlnum_def lowerOrDigit_def Let_def)
  qed
qed

lemma normalizeName_normalized: "normalizeName s = normalized s"
  unfolding normalizeName_def normalized_def stripNonAlnum_def toLowerCase_def
  by (induction s) (simp_all add: alnum_lower)


lemma includes_fuzzy:
  "(includesStr (normalizeName label) (normalizeName key)
    \<or> includesStr (normalizeName key) (normalizeName label)) = fuzzyMatch label key"
  by (simp add: includesStr_iff fuzzyMatch_def normalizeName_normalized)

lemma firstMatchingKey_find:
  "firstMatchingKey (normalizeName label) obj = find (fuzzyMatch label) (map fst obj)"
  by (induction obj) (auto simp: includes_fuzzy Let_def)

lemma setProp_keys: "k \<in> set (map fst obj) \<Longrightarrow> map fst (setProp k v obj) = map fst obj"
proof (induction obj)
  case Nil
  then show ?case by simp
next
  case (Cons p obj)
  show ?case
  proof (cases "fst p = k")
    case True
    then show ?thesis by (cases p) simp
  next
    case False
    with Cons.prems have "k \<in> set (map fst obj)" by auto
    with Cons.IH False show ?thesis by (cases p) simp
  qed
qed

lemma map_of_setProp: "map_of (setProp k v obj) = (map_of obj)(k \<mapsto> v)"
  by (induction obj) (auto simp: fun_eq_iff)

lemma find_in_set: "find P xs = Some x \<Longrightarrow> x \<in> set xs"
  by (induction xs) (auto split: if_splits)

lemma genericFieldStep_target:
  "genericFieldStep fullText field obj =
     (case targetKey fullText (map fst obj) field of
        None \<Rightarrow> obj
      | Some k \<Rightarrow> setProp k (carriedValue fullText field) obj)"
  by (auto simp: genericFieldStep_def targetKey_def carriedValue_def firstMatchingKey_find Let_def
           split: option.splits)

lemma genericFieldStep_keys:
  "map fst (genericFieldStep fullText field obj) = map fst obj"
proof (cases "targetKey fullText (map fst obj) field")
  case None
  then show ?thesis by (simp add: genericFieldStep_target)
next
  case (Some k)
  then have "k \<in> set (map fst obj)"
    by (auto simp: targetKey_def split: option.splits dest: find_in_set)
  with Some show ?thesis by (simp add: genericFieldStep_target setProp_keys)
qed

lemma fold_genericFieldStep_keys:
  "map fst (fold (genericFieldStep fullText) fs obj) = map fst obj"
  by (induction fs arbitrary: obj) (simp_all add: genericFieldStep_keys)

lemma fold_genericFieldStep_value:
  "map_of (fold (genericFieldStep fullText) fs obj) k =
     (if filter (\<lambda>f. targetKey fullText (map fst obj) f = Some k) fs = []
      then map_of obj k
      else Some (carriedValue fullText
                  (last (filter (\<lambda>f. targetKey fullText (map fst obj) f = Some k) fs))))"
proof (induction fs rule: rev_induct)
  case Nil
  show ?case by simp
next
  case (snoc f fs)
  let ?R = "fold (genericFieldStep fullText) fs obj"
  have keys: "map fst ?R = map fst obj" by (rule fold_genericFieldStep_keys)
  have step: "fold (genericFieldStep fullText) (fs @ [f]) obj = genericFieldStep fullText f ?R"
    by simp
  show ?case
  proof (cases "targetKey fullText (map fst obj) f = Some k")
    case True
    then have "map_of (genericFieldStep fullText f ?R) k = Some (carriedValue fullText f)"
      by (simp add: genericFieldStep_target keys map_of_setProp)
    with True show ?thesis
      by (simp add: step)
  next
    case False
    then have "map_of (genericFieldStep fullText f ?R) k = map_of ?R k"
      by (cases "targetKey fullText (map fst obj) f")
         (auto simp: genericFieldStep_target keys map_of_setProp)
    with False snoc show ?thesis
      by (simp add: step)
  qed
qed

lemma find_first:
  "find P xs = Some x \<longleftrightarrow> (\<exists>pre post. xs = pre @ x # post \<and> P x \<and> (\<forall>y \<in> set pre. \<not> P y))"
proof (induction xs)
  case Nil
  show ?case by simp
next
  case (Cons a xs)
  show ?case
  proof (cases "P a")
    case True
    show ?thesis
    proof
      assume "find P (a # xs) = Some x"
      with True have "x = a" by simp
      with True have "a # xs = [] @ x # xs \<and> P x \<and> (\<forall>y \<in> set []. \<not> P y)" by simp
      then show "\<exists>pre post. a # xs = pre @ x # post \<and> P x \<and> (\<forall>y \<in> set pre. \<not> P y)"
        by blast
    next
      assume "\<exists>pre post. a # xs = pre @ x # post \<and> P x \<and> (\<forall>y \<in> set pre. \<not> P y)"
      then obtain pre post where e: "a # xs = pre @ x # post" "\<forall>y \<in> set pre. \<not> P y" by blast
      with True have "pre = []" by (cases pre) auto
      with e True show "find P (a # xs) = Some x" by simp
    qed
  next
    case False
    show ?thesis
    proof
      assume "find P (a # xs) = Some x"
      with False Cons obtain pre post where
        "xs = pre @ x # post" "P x" "\<forall>y \<in> set pre. \<not> P y" by auto
      with False have "a # xs = (a # pre) @ x # post \<and> P x \<and> (\<forall>y \<in> set (a # pre). \<not> P y)"
        by simp
      then show "\<exists>pre post. a # xs = pre @ x # post \<and> P x \<and> (\<forall>y \<in> set pre. \<not> P y)"
        by blast
    next
      assume "\<exists>pre post. a # xs = pre @ x # post \<and> P x \<and> (\<forall>y \<in> set pre. \<not> P y)"
      then obtain pre post where e: "a # xs = pre @ x # post" "P x" "\<forall>y \<in> set pre. \<not> P y"
        by blast
      with False obtain pre' where "pre = a # pre'" by (cases pre) auto
      with e have "xs = pre' @ x # post \<and> P x \<and> (\<forall>y \<in> set pre'. \<not> P y)" by simp
      with Cons False show "find P (a # xs) = Some x" by auto
    qed
  qed
qed

text \<open>
  C1 (amended): on the generic form-field path (the four 1099 schemas and the schema of
  other documents) the label of a provider field and each canonical field name are
  normalized by lowercasing and keeping letters and digits; a field with both text
  anchors assigns its value to the first canonical field, in the order of declaration,
  whose normalized name occurs in the normalized label or contains it, and to none when
  there is no such field. The canonical fields and their order never change. The
  assignment overwrites: the final value of a canonical field is the value of the last
  provider field mapped to it, and its initial value when no field is mapped to it. On
  the W2 path, whose form fields are matched by keywords, a form field labelled
  \<open>Federal income tax withheld\<close> with the value \<open>1200\<close> yields \<open>federalTaxWithheld\<close> equal
  to \<open>1200\<close>.
\<close>

theorem C1_generic_form_fields:
  "normalizeName s = filter lowerOrDigit (toLowerCase s)
   \<and> (targetKey fullText keys field = Some k \<longleftrightarrow>
        (\<exists>na va pre post. fieldAnchors field = Some (na, va) \<and> keys = pre @ k # post
            \<and> fuzzyMatch (getText (Some na) fullText) k
            \<and> (\<forall>k' \<in> set pre. \<not> fuzzyMatch (getText (Some na) fullText) k')))
   \<and> genericFieldStep fullText field obj
       = (case targetKey fullText (map fst obj) field of
            None \<Rightarrow> obj
          | Some key \<Rightarrow> setProp key (carriedValue fullText field) obj)
   \<and> map fst (extractGenericFormFields document obj) = map fst obj
   \<and> map_of (extractGenericFormFields document obj) k
       = (if filter (\<lambda>f. targetKey (docText document) (map fst obj) f = Some k)
                    (formFieldsOf document) = []
          then map_of obj k
          else Some (carriedValue (docText document)
                      (last (filter (\<lambda>f. targetKey (docText document) (map fst obj) f = Some k)
                                    (formFieldsOf document)))))
   \<and> extract1099IntData document = extractGenericFormFields document (emptyFields int1099Fields)
   \<and> extract1099DivData document = extractGenericFormFields document (emptyFields div1099Fields)
   \<and> extract1099MiscData document = extractGenericFormFields document (emptyFields misc1099Fields)
   \<and> extract1099NecData document = extractGenericFormFields document (emptyFields nec1099Fields)
   \<and> extractGenericTaxData document = extractGenericFormFields document genericData
   \<and> map_of (extractW2Data labelledDocument) ''federalTaxWithheld'' = Some (JStr ''1200'')"
proof -
  have p1: "normalizeName s = filter lowerOrDigit (toLowerCase s)"
    by (simp add: normalizeName_normalized normalized_def)
  have p2: "targetKey fullText keys field = Some k \<longleftrightarrow>
        (\<exists>na va pre post. fieldAnchors field = Some (na, va) \<and> keys = pre @ k # post
            \<and> fuzzyMatch (getText (Some na) fullText) k
            \<and> (\<forall>k' \<in> set pre. \<not> fuzzyMatch (getText (Some na) fullText) k'))"
  proof (cases "fieldAnchors field")
    case None
    then show ?thesis by (simp add: targetKey_def)
  next
    case (Some anchors)
    obtain na va where anchors: "anchors = (na, va)" by (cases anchors)
    with Some have "targetKey fullText keys field = find (fuzzyMatch (getText (Some na) fullText)) keys"
      by (simp add: targetKey_def)
    with Some anchors show ?thesis
      by (simp add: find_first)
  qed
  have p3: "genericFieldStep fullText field obj
       = (case targetKey fullText (map fst obj) field of
            None \<Rightarrow> obj
          | Some key \<Rightarrow> setProp key (carriedValue fullText field) obj)"
    by (rule genericFieldStep_target)
  have p4: "map fst (extractGenericFormFields document obj) = map fst obj"
    by (simp add: extractGenericFormFields_def fold_genericFieldStep_keys split: option.splits)
  have p5: "map_of (extractGenericFormFields document obj) k
       = (if filter (\<lambda>f. targetKey (docText document) (map fst obj) f = Some k)
                    (formFieldsOf document) = []
          then map_of obj k
          else Some (carriedValue (docText document)
                      (last (filter (\<lambda>f. targetKey (docText document) (map fst obj) f = Some k)
                                    (formFieldsOf document)))))"
  proof (cases "firstPageFields document")
    case None
    then show ?thesis by (simp add: extractGenericFormFields_def formFieldsOf_def)
  next
    case (Some fs)
    then show ?thesis
      using fold_genericFieldStep_value[of "docText document" fs obj k]
      by (simp add: extractGenericFormFields_def formFieldsOf_def)
  qed
  have p6: "map_of (extractW2Data labelledDocument) ''federalTaxWithheld'' = Some (JStr ''1200'')"
    by code_simp
  from p1 p2 p3 p4 p5 p6 show ?thesis
    unfolding extract1099IntData_def extract1099DivData_def extract1099MiscData_def
      extract1099NecData_def extractGenericTaxData_def
    by (intro conjI refl)
qed

theorem C1_generic_form_fields_witness:
  "map fst (extract1099NecData overwritingDocument) = nec1099Fields
   \<and> map_of (extract1099NecData overwritingDocument) ''payerName'' = Some (JStr ''Beta LLC'')
   \<and> filter (\<lambda>f. targetKey (docText overwritingDocument) nec1099Fields f = Some ''payerName'')
              (formFieldsOf overwritingDocument) \<noteq> []
   \<and> carriedValue (docText overwritingDocument)
         (last (filter (\<lambda>f. targetKey (docText overwritingDocument) nec1099Fields f
                               = Some ''payerName'')
                       (formFieldsOf overwritingDocument)))
       = JStr ''Beta LLC''"
proof -
  note inst = C1_generic_form_fields[where k = "''payerName''" and document = overwritingDocument
                 and obj = "emptyFields nec1099Fields"]
  have keys: "map fst (emptyFields nec1099Fields) = nec1099Fields"
    by (simp add: emptyFields_def comp_def)
  have init: "map_of (emptyFields nec1099Fields) ''payerName'' = Some (JStr [])"
    by code_simp
  have run: "map_of (extract1099NecData overwritingDocument) ''payerName'' = Some (JStr ''Beta LLC'')"
    by code_simp
  from inst have nec: "extract1099NecData overwritingDocument
                      = extractGenericFormFields overwritingDocument (emptyFields nec1099Fields)"
    by blast
  from inst have "map fst (extractGenericFormFields overwritingDocument (emptyFields nec1099Fields))
                 = map fst (emptyFields nec1099Fields)"
    by blast
  with nec keys have a: "map fst (extract1099NecData overwritingDocument) = nec1099Fields"
    by simp
  let ?F = "filter (\<lambda>f. targetKey (docText overwritingDocument) nec1099Fields f = Some ''payerName'')
              (formFieldsOf overwritingDocument)"
  from inst have eq: "map_of (extractGenericFormFields overwritingDocument (emptyFields nec1099Fields))
                   ''payerName''
       = (if filter (\<lambda>f. targetKey (docText overwritingDocument)
                             (map fst (emptyFields nec1099Fields)) f = Some ''payerName'')
                    (formFieldsOf overwritingDocument) = []
          then map_of (emptyFields nec1099Fields) ''payerName''
          else Some (carriedValue (docText overwritingDocument)
                      (last (filter (\<lambda>f. targetKey (docText overwritingDocument)
                                            (map fst (emptyFields nec1099Fields)) f
                                          = Some ''payerName'')
                                    (formFieldsOf overwritingDocument)))))"
    by blast
  note eq' = eq[unfolded keys, folded nec, unfolded run init]
  have b: "?F \<noteq> [] \<and> carriedValue (docText overwritingDocument) (last ?F) = JStr ''Beta LLC''"
  proof (cases "?F = []")
    case True
    with eq' show ?thesis by simp
  next
    case False
    with eq' show ?thesis by simp
  qed
  from a run b show ?thesis by blast
qed

text \<open>
  The claim as stated fails twice. The field \<open>Payer name\<close> assigns \<open>Acme Corp\<close> to
  \<open>payerName\<close>, and the later field \<open>Payer\<close>, which matches \<open>payerName\<close> only because the
  name contains the label, overwrites it with \<open>Beta LLC\<close>. And on the generic path with
  the 1099-INT schema the label \<open>Federal income tax withheld\<close> is mapped to no field:
  \<open>federaltaxwithheld\<close> does not occur in \<open>federalincometaxwithheld\<close>.
\<close>

theorem C1_counterexample:
  "map_of (extract1099NecData payerDocument) ''payerName'' = Some (JStr ''Acme Corp'')
   \<and> map_of (extract1099NecData overwritingDocument) ''payerName'' = Some (JStr ''Beta LLC'')
   \<and> map_of (extract1099IntData labelledDocument) ''federalTaxWithheld'' = Some (JStr [])
   \<and> map_of (extract1099IntData labelledDocument) ''federalTaxWithheld'' \<noteq> Some (JStr ''1200'')"
  by code_simp

subsection \<open>The upload route\<close>








end
